theory Spec2Isabelle
  imports Complex_Main "HOL-Library.Sublist"
begin

section \<open>Python values used by the scripts\<close>

text \<open>
  A Python \<open>str\<close> is modelled as a \<open>string\<close> whose characters are code points below 256.
  Values produced by \<open>json.loads\<close> are modelled by \<open>json\<close>; JSON numbers with a fraction or
  an exponent (Python floats) are left out.  An object is an association list read with
  \<open>map_of\<close>.
\<close>

datatype json = JNull | JBool bool | JInt int | JStr string
  | JArr "json list" | JObj "(string \<times> json) list"

datatype py_error =
    AttributeError string
  | RuntimeError string
  | FileNotFoundError string
  | OSError string
  | TypeError string

fun str_exc :: "py_error \<Rightarrow> string" where
  "str_exc (AttributeError m) = m"
| "str_exc (RuntimeError m) = m"
| "str_exc (FileNotFoundError m) = m"
| "str_exc (OSError m) = m"
| "str_exc (TypeError m) = m"

text \<open>Sequencing of computations that may raise: the first exception wins.\<close>

fun bnd :: "py_error + 'a \<Rightarrow> ('a \<Rightarrow> py_error + 'b) \<Rightarrow> py_error + 'b" where
  "bnd (Inl x) f = Inl x"
| "bnd (Inr a) f = f a"

text \<open>Truth value of a JSON value, as \<open>bool(v)\<close>, and \<open>a or b\<close>.\<close>

fun py_truthy :: "json \<Rightarrow> bool" where
  "py_truthy JNull = False"
| "py_truthy (JBool b) = b"
| "py_truthy (JInt n) = (n \<noteq> 0)"
| "py_truthy (JStr s) = (s \<noteq> [])"
| "py_truthy (JArr xs) = (xs \<noteq> [])"
| "py_truthy (JObj kvs) = (kvs \<noteq> [])"

definition py_or :: "json \<Rightarrow> json \<Rightarrow> json" where
  "py_or a b = (if py_truthy a then a else b)"

definition str_or :: "string \<Rightarrow> string \<Rightarrow> string" where
  "str_or a b = (if a \<noteq> [] then a else b)"

text \<open>Decimal text of an integer, as \<open>str(n)\<close>.\<close>

fun digits :: "nat \<Rightarrow> string" where
  "digits n = (if n < 10 then [''0123456789'' ! n]
               else digits (n div 10) @ [''0123456789'' ! (n mod 10)])"

definition str_int :: "int \<Rightarrow> string" where
  "str_int n = (if n < 0 then CHR ''-'' # digits (nat (- n)) else digits (nat n))"

text \<open>\<open>repr\<close> of a string: quote selection and escapes for code points below 256.\<close>

definition hex2 :: "nat \<Rightarrow> string" where
  "hex2 n = [''0123456789abcdef'' ! (n div 16), ''0123456789abcdef'' ! (n mod 16)]"

definition py_printable :: "char \<Rightarrow> bool" where
  "py_printable c = (let n = (of_char c :: nat) in
     (32 \<le> n \<and> n < 127) \<or> (161 \<le> n \<and> n \<noteq> 173))"

definition repr_char :: "char \<Rightarrow> char \<Rightarrow> string" where
  "repr_char q c =
     (if c = CHR 0x5C then [CHR 0x5C, CHR 0x5C]
      else if c = q then [CHR 0x5C, q]
      else if c = CHR 0x09 then [CHR 0x5C, CHR ''t'']
      else if c = CHR 0x0A then [CHR 0x5C, CHR ''n'']
      else if c = CHR 0x0D then [CHR 0x5C, CHR ''r'']
      else if py_printable c then [c]
      else CHR 0x5C # CHR ''x'' # hex2 (of_char c))"

definition repr_str :: "string \<Rightarrow> string" where
  "repr_str s =
     (let q = (if CHR 0x27 \<in> set s \<and> CHR 0x22 \<notin> set s then CHR 0x22 else CHR 0x27)
      in q # concat (map (repr_char q) s) @ [q])"

fun join :: "string \<Rightarrow> string list \<Rightarrow> string" where
  "join sep [] = []"
| "join sep [x] = x"
| "join sep (x # y # ys) = x @ sep @ join sep (y # ys)"

fun py_repr :: "json \<Rightarrow> string" where
  "py_repr JNull = ''None''"
| "py_repr (JBool b) = (if b then ''True'' else ''False'')"
| "py_repr (JInt n) = str_int n"
| "py_repr (JStr s) = repr_str s"
| "py_repr (JArr xs) = ''['' @ join '', '' (map py_repr xs) @ '']''"
| "py_repr (JObj kvs) =
     ''{'' @ join '', '' (map (\<lambda>(k, v). repr_str k @ '': '' @ py_repr v) kvs) @ ''}''"

fun py_str :: "json \<Rightarrow> string" where
  "py_str (JStr s) = s"
| "py_str v = py_repr v"

text \<open>\<open>str.isspace\<close> on code points below 256, and \<open>str.strip()\<close>.\<close>

definition py_isspace :: "char \<Rightarrow> bool" where
  "py_isspace c = (c \<in> set [CHR 0x09, CHR 0x0A, CHR 0x0B, CHR 0x0C, CHR 0x0D,
                             CHR 0x1C, CHR 0x1D, CHR 0x1E, CHR 0x1F, CHR 0x20,
                             CHR 0x85, CHR 0xA0])"

definition py_lstrip :: "string \<Rightarrow> string" where
  "py_lstrip s = dropWhile py_isspace s"

definition py_strip :: "string \<Rightarrow> string" where
  "py_strip s = rev (dropWhile py_isspace (rev (dropWhile py_isspace s)))"

text \<open>\<open>v.get(key, default)\<close>: only a dict has the method.\<close>

fun type_name :: "json \<Rightarrow> string" where
  "type_name JNull = ''NoneType''"
| "type_name (JBool b) = ''bool''"
| "type_name (JInt n) = ''int''"
| "type_name (JStr s) = ''str''"
| "type_name (JArr xs) = ''list''"
| "type_name (JObj kvs) = ''dict''"

definition no_get :: "json \<Rightarrow> py_error" where
  "no_get v = AttributeError
     ([CHR 0x27] @ type_name v @ [CHR 0x27] @ '' object has no attribute '' @ [CHR 0x27] @ ''get'' @ [CHR 0x27])"

fun py_get :: "json \<Rightarrow> string \<Rightarrow> json \<Rightarrow> py_error + json" where
  "py_get (JObj kvs) k d = Inr (case map_of kvs k of None \<Rightarrow> d | Some v \<Rightarrow> v)"
| "py_get v k d = Inl (no_get v)"

section \<open>The update checker (win/xui\_update\_check.py)\<close>

text \<open>
  Everything the script reads from outside is a field of \<open>world\<close>: the process environment,
  the two JSON files under the data directory, the file system tests, \<open>shutil.which\<close>, the
  HTTP request of \<open>fetch_json\<close>, and the child processes.  A JSON file is missing, or
  unreadable as JSON (\<open>json.loads\<close> or the read raises), or holds a value.  The path
  arithmetic of \<open>pathlib\<close> is taken as given (\<open>path_join\<close>, \<open>path_is_absolute\<close>,
  \<open>path_suffix\<close>, \<open>path_parent\<close>), and so is the already expanded source directory \<open>SRC\<close>.
\<close>

datatype json_file = NoFile | NotJson | Parsed json

datatype http_result = HttpRaised string | HttpJson json

record world =
  os_environ :: "string \<Rightarrow> string option"
  state_file :: json_file
  channel_file :: json_file
  SRC :: string
  path_join :: "string \<Rightarrow> string \<Rightarrow> string"
  path_is_absolute :: "string \<Rightarrow> bool"
  path_suffix :: "string \<Rightarrow> string"
  path_parent :: "string \<Rightarrow> string"
  path_exists :: "string \<Rightarrow> bool"
  path_is_file :: "string \<Rightarrow> bool"
  shutil_which :: "string \<Rightarrow> string option"
  urlopen_json :: "string \<Rightarrow> http_result"
  check_output :: "string list \<Rightarrow> string option"
  run_proc :: "string list \<Rightarrow> string option \<Rightarrow> (string list \<times> int) option"
  time_now :: int
  state_writable :: bool

text \<open>Module constants: \<open>os.environ.get(name, default).strip() or default\<close>.\<close>

definition environ_or :: "world \<Rightarrow> string \<Rightarrow> string \<Rightarrow> string" where
  "environ_or w name dflt =
     str_or (py_strip (case os_environ w name of None \<Rightarrow> dflt | Some v \<Rightarrow> v)) dflt"

definition REPO :: "world \<Rightarrow> string" where
  "REPO w = environ_or w ''XUI_UPDATE_REPO'' ''afitler79-alt/XUI-X360-FRONTEND''"


definition DEFAULT_BRANCH :: "world \<Rightarrow> string" where
  "DEFAULT_BRANCH w = environ_or w ''XUI_DEFAULT_UPDATE_BRANCH'' ''windows''"

text \<open>
  \<open>read_state_commit\<close> and \<open>read_channel_branch\<close>: the \<open>try\<close> covers the read and
  \<open>json.loads\<close> only; \<open>data.get\<close> comes after it, so a file holding a JSON value that is
  not an object raises \<open>AttributeError\<close>.
\<close>

definition read_field :: "json_file \<Rightarrow> string \<Rightarrow> py_error + string" where
  "read_field f key =
     (case f of
        NoFile \<Rightarrow> Inr []
      | NotJson \<Rightarrow> Inr []
      | Parsed data \<Rightarrow>
          bnd (py_get data key (JStr [])) (\<lambda>v. Inr (py_strip (py_str (py_or v (JStr []))))))"

definition read_state_commit :: "world \<Rightarrow> py_error + string" where
  "read_state_commit w = read_field (state_file w) ''installed_commit''"

definition read_channel_branch :: "world \<Rightarrow> py_error + string" where
  "read_channel_branch w = read_field (channel_file w) ''branch''"

definition resolve_branch :: "world \<Rightarrow> py_error + string" where
  "resolve_branch w =
     (let env_branch = py_strip (str_or (case os_environ w ''XUI_UPDATE_BRANCH'' of
                                           None \<Rightarrow> [] | Some v \<Rightarrow> v) [])
      in if env_branch \<noteq> [] then Inr env_branch
         else bnd (read_channel_branch w) (\<lambda>file_branch.
                if file_branch \<noteq> [] then Inr file_branch else Inr (DEFAULT_BRANCH w)))"

text \<open>
  \<open>remote_meta\<close>: the whole body is inside \<open>try ... except Exception\<close>, so every exception
  becomes the failure dictionary.  The two dictionaries it returns are the two constructors
  of \<open>meta\<close>.  \<open>tb\<close> is the module constant \<open>TARGET_BRANCH\<close>.
\<close>

datatype meta =
    MetaOk string string string string
  | MetaFail string string

definition commits_url :: "world \<Rightarrow> string \<Rightarrow> string" where
  "commits_url w branch = ''https://api.github.com/repos/'' @ REPO w @ ''/commits/'' @ branch"

definition fetch_json :: "world \<Rightarrow> string \<Rightarrow> py_error + json" where
  "fetch_json w url =
     (case urlopen_json w url of HttpRaised m \<Rightarrow> Inl (OSError m) | HttpJson v \<Rightarrow> Inr v)"

definition remote_meta_body :: "world \<Rightarrow> string \<Rightarrow> py_error + meta" where
  "remote_meta_body w tb =
     (let branch = tb in
      bnd (fetch_json w (commits_url w branch)) (\<lambda>commit.
      bnd (py_get commit ''sha'' (JStr [])) (\<lambda>s.
      let sha = py_strip (py_str (py_or s (JStr []))) in
      bnd (py_get commit ''commit'' JNull) (\<lambda>c1.
      bnd (py_get (py_or c1 (JObj [])) ''committer'' JNull) (\<lambda>c2.
      bnd (py_get (py_or c2 (JObj [])) ''date'' JNull) (\<lambda>d.
      let date = py_str (py_or d (JStr [])) in
      bnd (py_get commit ''html_url'' (JStr [])) (\<lambda>h.
      let html = py_str (py_or h (JStr [])) in
      if sha = [] then Inr (MetaFail ''missing-remote-sha'' branch)
      else Inr (MetaOk branch sha date html))))))))"

definition remote_meta :: "world \<Rightarrow> string \<Rightarrow> meta" where
  "remote_meta w tb =
     (case remote_meta_body w tb of
        Inl exc \<Rightarrow> MetaFail (str_exc exc) tb
      | Inr m \<Rightarrow> m)"

text \<open>
  \<open>emit_json\<close> prints one JSON object; \<open>status_obj\<close> is that object.  In text mode
  \<open>compute_status\<close> prints lines.
\<close>

record status_obj =
  checked :: bool
  mandatory :: bool
  update_required :: bool
  reason :: string
  repo :: string
  branch :: string
  local_commit :: string
  remote_commit :: string
  remote_date :: string
  remote_url :: string

datatype printed = PrintedJson status_obj | PrintedText "string list"

definition emit_json ::
  "world \<Rightarrow> bool \<Rightarrow> bool \<Rightarrow> string \<Rightarrow> string \<Rightarrow> string \<Rightarrow> string \<Rightarrow> string \<Rightarrow> string \<Rightarrow> status_obj" where
  "emit_json w chk required rsn br lc rc rd ru =
     \<lparr> checked = chk, mandatory = True, update_required = required,
       reason = str_or rsn [], repo = REPO w, branch = str_or br [],
       local_commit = str_or lc [], remote_commit = str_or rc [],
       remote_date = str_or rd [], remote_url = str_or ru [] \<rparr>"

text \<open>The local commit: the state file's, or else \<open>git rev-parse HEAD\<close> in \<open>SRC\<close>.\<close>

definition which_ok :: "world \<Rightarrow> string \<Rightarrow> bool" where
  "which_ok w name = (case shutil_which w name of None \<Rightarrow> False | Some p \<Rightarrow> p \<noteq> [])"

definition local_commit_of :: "world \<Rightarrow> py_error + string" where
  "local_commit_of w =
     bnd (read_state_commit w) (\<lambda>lc.
       if lc = [] \<and> path_exists w (path_join w (SRC w) ''.git'') \<and> which_ok w ''git''
       then (case check_output w [''git'', ''-C'', SRC w, ''rev-parse'', ''HEAD''] of
               None \<Rightarrow> Inr []
             | Some out \<Rightarrow> Inr (py_strip out))
       else Inr lc)"

definition status_fields :: "world \<Rightarrow> string \<Rightarrow> string \<Rightarrow> status_obj" where
  "status_fields w tb lc =
     (case remote_meta w tb of
        MetaFail err mb \<Rightarrow>
          emit_json w False False (''remote-unavailable:'' @ err) (str_or mb tb) lc [] [] []
      | MetaOk mb sha date url \<Rightarrow>
          (let remote = str_or sha [] in
           if lc = [] then
             emit_json w True True ''missing-local-version'' (str_or mb tb) lc remote
               (str_or date []) (str_or url [])
           else if lc \<noteq> remote then
             emit_json w True True ''outdated'' (str_or mb tb) lc remote
               (str_or date []) (str_or url [])
           else
             emit_json w True False ''up-to-date'' (str_or mb tb) lc remote
               (str_or date []) (str_or url [])))"

definition status_text :: "status_obj \<Rightarrow> string list" where
  "status_text s =
     [''Repo: '' @ repo s,
      ''Branch: '' @ branch s,
      ''Checked: '' @ (if checked s then ''yes'' else ''no''),
      ''Mandatory: yes'',
      ''Local commit: '' @ str_or (local_commit s) ''<none>'',
      ''Remote commit: '' @ str_or (remote_commit s) ''<unknown>'']
     @ (if remote_date s \<noteq> [] then [''Remote date: '' @ remote_date s] else [])
     @ (if remote_url s \<noteq> [] then [''Remote URL: '' @ remote_url s] else [])
     @ [''Update required: '' @ (if update_required s then ''yes'' else ''no''),
        ''Reason: '' @ reason s]"

definition compute_status :: "world \<Rightarrow> string \<Rightarrow> bool \<Rightarrow> py_error + (printed \<times> int)" where
  "compute_status w tb json_out =
     bnd (local_commit_of w) (\<lambda>lc.
       let s = status_fields w tb lc in
       Inr (if json_out then PrintedJson s else PrintedText (status_text s),
            if update_required s then 10 else 0))"


text \<open>Two concrete worlds for evaluation: POSIX-style paths, no environment variables.\<close>

definition github_commit :: json where
  "github_commit = JObj
     [(''sha'', JStr ''def456''),
      (''commit'', JObj [(''committer'', JObj [(''date'', JStr ''2026-01-01T00:00:00Z'')])]),
      (''html_url'', JStr ''https://github.com/afitler79-alt/XUI-X360-FRONTEND/commit/def456'')]"

definition online_world :: world where
  "online_world =
     \<lparr> os_environ = (\<lambda>n. None),
       state_file = Parsed (JObj [(''installed_commit'', JStr ''abc123''), (''version'', JInt 2)]),
       channel_file = NoFile,
       SRC = ''/home/u/.xui/src/XUI-X360-FRONTEND'',
       path_join = (\<lambda>a b. a @ ''/'' @ b),
       path_is_absolute = (\<lambda>p. take 1 p = ''/''),
       path_suffix = (\<lambda>p. drop (length p - 4) p),
       path_parent = (\<lambda>p. ''/home/u/.xui/src''),
       path_exists = (\<lambda>p. p = ''/home/u/.xui/src/XUI-X360-FRONTEND/.git''
                          \<or> p = ''/home/u/.xui/src/XUI-X360-FRONTEND/win/install_xui_windows.ps1''),
       path_is_file = (\<lambda>p. p = ''/home/u/.xui/src/XUI-X360-FRONTEND/win/install_xui_windows.ps1''),
       shutil_which = (\<lambda>n. if n = ''git'' then Some ''/usr/bin/git''
                            else if n = ''pwsh'' then Some ''/usr/bin/pwsh'' else None),
       urlopen_json = (\<lambda>u.
          if u = ''https://api.github.com/repos/afitler79-alt/XUI-X360-FRONTEND/commits/windows''
          then HttpJson github_commit else HttpRaised ''HTTP Error 404: Not Found''),
       check_output = (\<lambda>c. Some (''def456'' @ [CHR 0x0A])),
       run_proc = (\<lambda>c d. Some ([], 0)),
       time_now = 1700000000,
       state_writable = True \<rparr>"

definition offline_world :: world where
  "offline_world = online_world \<lparr> urlopen_json := (\<lambda>u. HttpRaised ''<urlopen error timed out>'') \<rparr>"

definition fresh_clone_world :: world where
  "fresh_clone_world = online_world \<lparr> state_file := NoFile \<rparr>"




section \<open>Applying an update (\<open>apply_update\<close>)\<close>

text \<open>
  What \<open>apply_update\<close> does to the outside is recorded as a list of events, in order.  A
  computation ends with a value, with an early \<open>return\<close> of an exit code, or with an
  uncaught exception.
\<close>

datatype event =
    Print string
  | HttpGet string
  | Mkdir string
  | Run "string list" "string option"
  | CheckOutput "string list"
  | WriteState json

datatype 'a outcome = Value 'a | Return int | Raised py_error

type_synonym 'a act = "event list \<times> 'a outcome"

definition seq :: "'a act \<Rightarrow> ('a \<Rightarrow> 'b act) \<Rightarrow> 'b act" where
  "seq m f =
     (case m of
        (t, Value a) \<Rightarrow> (case f a of (t', r) \<Rightarrow> (t @ t', r))
      | (t, Return c) \<Rightarrow> (t, Return c)
      | (t, Raised x) \<Rightarrow> (t, Raised x))"

definition emit :: "event \<Rightarrow> unit act" where
  "emit ev = ([ev], Value ())"

definition ret :: "int \<Rightarrow> 'a act" where
  "ret c = ([], Return c)"

definition skip :: "unit act" where
  "skip = ([], Value ())"

text \<open>\<open>run_stream\<close>: start the process, print its output line by line, give its exit code.\<close>

definition run_stream :: "world \<Rightarrow> string list \<Rightarrow> string option \<Rightarrow> int act" where
  "run_stream w cmd cwd =
     (case run_proc w cmd cwd of
        None \<Rightarrow> ([Run cmd cwd], Raised (OSError ''cannot start process''))
      | Some (lines, rc) \<Rightarrow> (Run cmd cwd # map Print lines, Value rc))"









definition return_if_failed :: "int \<Rightarrow> unit act" where
  "return_if_failed rc = (if rc \<noteq> 0 then ret rc else skip)"

text \<open>The git commands of \<open>apply_update\<close>, as argument lists.\<close>

definition git_clone :: "world \<Rightarrow> string \<Rightarrow> string list" where
  "git_clone w git = [git, ''clone'', ''https://github.com/'' @ REPO w @ ''.git'', SRC w]"

definition git_fetch :: "world \<Rightarrow> string \<Rightarrow> string list" where
  "git_fetch w git = [git, ''-C'', SRC w, ''fetch'', ''--all'', ''--prune'']"

definition git_checkout :: "world \<Rightarrow> string \<Rightarrow> string \<Rightarrow> string list" where
  "git_checkout w git br = [git, ''-C'', SRC w, ''checkout'', ''-B'', br, ''origin/'' @ br]"

definition git_reset :: "world \<Rightarrow> string \<Rightarrow> string \<Rightarrow> string list" where
  "git_reset w git br = [git, ''-C'', SRC w, ''reset'', ''--hard'', ''origin/'' @ br]"

definition git_clean :: "world \<Rightarrow> string \<Rightarrow> string list" where
  "git_clean w git = [git, ''-C'', SRC w, ''clean'', ''-fd'']"

definition git_rev_parse :: "world \<Rightarrow> string \<Rightarrow> string list" where
  "git_rev_parse w git = [git, ''-C'', SRC w, ''rev-parse'', ''HEAD'']"







text \<open>The outside actions of a run, and the order the update is meant to follow.\<close>

fun is_print :: "event \<Rightarrow> bool" where
  "is_print (Print s) = True"
| "is_print ev = False"

definition actions :: "event list \<Rightarrow> event list" where
  "actions t = filter (\<lambda>ev. \<not> is_print ev) t"

definition update_plan :: "world \<Rightarrow> string \<Rightarrow> string \<Rightarrow> string \<Rightarrow> string list \<Rightarrow> json \<Rightarrow> event list" where
  "update_plan w tb git br cmd payload =
     [HttpGet (commits_url w tb), Mkdir (path_parent w (SRC w))]
     @ (if \<not> path_exists w (path_join w (SRC w) ''.git'') then [Run (git_clone w git) None] else [])
     @ [Run (git_fetch w git) None, Run (git_checkout w git br) None,
        Run (git_reset w git br) None, Run (git_clean w git) None,
        Run cmd (Some (SRC w)), CheckOutput (git_rev_parse w git), WriteState payload]"

definition git_plan :: "world \<Rightarrow> string \<Rightarrow> string \<Rightarrow> event list" where
  "git_plan w git br =
     Mkdir (path_parent w (SRC w))
     # (if \<not> path_exists w (path_join w (SRC w) ''.git'') then [Run (git_clone w git) None] else [])
     @ [Run (git_fetch w git) None, Run (git_checkout w git br) None,
        Run (git_reset w git br) None, Run (git_clean w git) None]"



text \<open>
  A run of commands in which every non-zero exit code is returned at once, as the chain of
  \<open>rc = run_stream(...)\<close>, \<open>if rc != 0: return rc\<close> in \<open>apply_update\<close> does; used to state
  facts about that chain.
\<close>

fun guarded_seq :: "world \<Rightarrow> string list list \<Rightarrow> unit act \<Rightarrow> unit act" where
  "guarded_seq w [] k = k"
| "guarded_seq w (c # cs) k =
     seq (run_stream w c None) (\<lambda>rc. seq (return_if_failed rc) (\<lambda>_. guarded_seq w cs k))"

fun git_event :: "event \<Rightarrow> bool" where
  "git_event (Print s) = True"
| "git_event (Mkdir d) = True"
| "git_event (Run c None) = True"
| "git_event ev = False"








section \<open>Payload extraction (win/extract\_xui\_payload.py)\<close>

text \<open>
  The pattern of \<open>extract_last_heredoc\<close> is the literal \<open>cat > "target" <<'\<close>, then a
  non-empty run of characters other than the single quote (the marker, group 1), then a
  single quote and a newline.  The target is escaped, so it is matched literally; the
  pattern has no anchor, and the marker's character class admits newlines.
\<close>

definition open_prefix :: "string \<Rightarrow> string" where
  "open_prefix target = ''cat > '' @ [CHR 0x22] @ target @ [CHR 0x22] @ '' <<'' @ [CHR 0x27]"

definition opening_line :: "string \<Rightarrow> string \<Rightarrow> string" where
  "opening_line target marker = open_prefix target @ marker @ [CHR 0x27, CHR 0x0A]"

fun strip_prefix :: "'a list \<Rightarrow> 'a list \<Rightarrow> 'a list option" where
  "strip_prefix [] ys = Some ys"
| "strip_prefix (x # xs) [] = None"
| "strip_prefix (x # xs) (y # ys) = (if x = y then strip_prefix xs ys else None)"

text \<open>A match of the pattern at the start of \<open>s\<close>: the marker and the text after the match.\<close>

definition match_at :: "string \<Rightarrow> string \<Rightarrow> (string \<times> string) option" where
  "match_at target s =
     (case strip_prefix (open_prefix target) s of
        None \<Rightarrow> None
      | Some r \<Rightarrow>
          (let marker = takeWhile (\<lambda>c. c \<noteq> CHR 0x27) r;
               after = dropWhile (\<lambda>c. c \<noteq> CHR 0x27) r
           in if marker \<noteq> [] \<and> take 2 after = [CHR 0x27, CHR 0x0A]
              then Some (marker, drop 2 after) else None))"

text \<open>
  \<open>pattern.finditer\<close>: the matches from left to right, the search resuming where the
  previous match ended.
\<close>

function finditer :: "string \<Rightarrow> string \<Rightarrow> (string \<times> string) list" where
  "finditer target s =
     (case match_at target s of
        Some (marker, rest) \<Rightarrow> (marker, rest) # finditer target rest
      | None \<Rightarrow> (case s of [] \<Rightarrow> [] | c # cs \<Rightarrow> finditer target cs))"
  by pat_completeness auto
termination
proof (relation "measure (\<lambda>(target, s). length s)")
  show "wf (measure (\<lambda>(target, s). length s))" by simp
next
  fix target s :: string and x2 x y
  assume m: "match_at target s = Some x2" and x: "(x, y) = x2"
  have sp: "strip_prefix p u = Some r \<Longrightarrow> length r \<le> length u" for p u r :: string
    by (induction p u rule: strip_prefix.induct) (auto split: if_splits)
  from m x obtain r where r: "strip_prefix (open_prefix target) s = Some r"
    and y: "y = drop 2 (dropWhile (\<lambda>c. c \<noteq> CHR 0x27) r)"
    and t: "take 2 (dropWhile (\<lambda>c. c \<noteq> CHR 0x27) r) = [CHR 0x27, CHR 0x0A]"
    by (auto simp: match_at_def Let_def split: option.splits if_splits)
  have "dropWhile (\<lambda>c. c \<noteq> CHR 0x27) r \<noteq> []"
  proof
    assume "dropWhile (\<lambda>c. c \<noteq> CHR 0x27) r = []"
    with t show False by simp
  qed
  then have "length y < length (dropWhile (\<lambda>c. c \<noteq> CHR 0x27) r)" using y by simp
  also have "\<dots> \<le> length r" by (rule length_dropWhile_le)
  also have "\<dots> \<le> length s" using sp [OF r] .
  finally show "((target, y), (target, s)) \<in> measure (\<lambda>(target, s). length s)" by simp
next
  fix target s :: string and c cs
  assume "s = c # cs"
  then show "((target, cs), (target, s)) \<in> measure (\<lambda>(target, s). length s)" by simp
qed

text \<open>\<open>str.find\<close>: the index of the first occurrence, or nothing (the code's \<open>-1\<close>).\<close>

fun find_sub :: "string \<Rightarrow> string \<Rightarrow> nat option" where
  "find_sub tok [] = (if tok = [] then Some 0 else None)"
| "find_sub tok (c # cs) =
     (if prefix tok (c # cs) then Some 0 else map_option Suc (find_sub tok cs))"

definition not_closed :: "string \<Rightarrow> string \<Rightarrow> py_error" where
  "not_closed target marker =
     RuntimeError (''Heredoc marker not closed for '' @ target @ '' ('' @ marker @ '')'')"

definition with_final_newline :: "string \<Rightarrow> string" where
  "with_final_newline payload =
     (if payload \<noteq> [] \<and> last payload \<noteq> CHR 0x0A then payload @ [CHR 0x0A] else payload)"

definition extract_last_heredoc :: "string \<Rightarrow> string \<Rightarrow> py_error + string option" where
  "extract_last_heredoc src_text target_path =
     (let matches = finditer target_path src_text in
      if matches = [] then Inr None
      else (case last matches of (marker, rest) \<Rightarrow>
        (let end_token = CHR 0x0A # marker @ [CHR 0x0A] in
         case find_sub end_token rest of
           None \<Rightarrow> Inl (not_closed target_path marker)
         | Some k \<Rightarrow> Inr (Some (with_final_newline (take k rest))))))"

text \<open>The fixed target list: shell target, output name, required.\<close>

definition TARGETS :: "(string \<times> string \<times> bool) list" where
  "TARGETS =
     [(''$DASH_DIR/pyqt_dashboard_improved.py'', ''pyqt_dashboard_improved.py'', True),
      (''$BIN_DIR/xui_webhub.py'', ''xui_webhub.py'', True),
      (''$BIN_DIR/xui_social_chat.py'', ''xui_social_chat.py'', True),
      (''$GAMES_DIR/store.py'', ''xui_store_modern.py'', True),
      (''$BIN_DIR/xui_global_guide.py'', ''xui_global_guide.py'', True),
      (''$BIN_DIR/xui_first_setup.py'', ''xui_first_setup.py'', False),
      (''$BIN_DIR/xui_game_lib.py'', ''xui_game_lib.py'', False),
      (''$BIN_DIR/xui_web_api.py'', ''xui_web_api.py'', False)]"

text \<open>
  \<open>main\<close>: the state of the loop is the files written so far, the dictionary
  \<open>extracted\<close> (insertion ordered, a later assignment to a key replaces the earlier one) and
  the list \<open>missing_required\<close>.  The source file is given by its text, or is absent.
  The progress and error lines that \<open>main\<close> prints are not recorded, and the file system
  calls (creating the output directory, reading, writing) are taken to succeed.
\<close>

record entry =
  source_target :: string
  size_chars :: nat
  lines_count :: nat

record extraction =
  written :: "(string \<times> string) list"
  extracted :: "(string \<times> entry) list"
  missing_required :: "string list"

record manifest =
  m_source :: string
  m_files :: "(string \<times> entry) list"
  m_count :: nat

record main_result =
  files :: "(string \<times> string) list"
  manifest_json :: "manifest option"
  exit_code :: "py_error + int"

fun dict_set :: "'k \<Rightarrow> 'v \<Rightarrow> ('k \<times> 'v) list \<Rightarrow> ('k \<times> 'v) list" where
  "dict_set k v [] = [(k, v)]"
| "dict_set k v ((k', v') # kvs) = (if k = k' then (k, v) # kvs else (k', v') # dict_set k v kvs)"

definition count_newlines :: "string \<Rightarrow> nat" where
  "count_newlines block = length (filter (\<lambda>c. c = CHR 0x0A) block)"

fun extract_loop ::
  "string \<Rightarrow> (string \<times> string \<times> bool) list \<Rightarrow> extraction \<Rightarrow> extraction \<times> py_error option" where
  "extract_loop text [] st = (st, None)"
| "extract_loop text ((bash_target, out_name, required) # todo) st =
     (case extract_last_heredoc text bash_target of
        Inl exc \<Rightarrow> (st, Some exc)
      | Inr None \<Rightarrow>
          extract_loop text todo
            (if required then st \<lparr> missing_required := missing_required st @ [bash_target] \<rparr> else st)
      | Inr (Some block) \<Rightarrow>
          extract_loop text todo
            (st \<lparr> written := written st @ [(out_name, block)],
                  extracted := dict_set out_name
                    \<lparr> source_target = bash_target, size_chars = length block,
                      lines_count = count_newlines block \<rparr> (extracted st) \<rparr>))"

definition main :: "string \<Rightarrow> string option \<Rightarrow> main_result" where
  "main src source_text =
     (case source_text of
        None \<Rightarrow> \<lparr> files = [], manifest_json = None, exit_code = Inr 2 \<rparr>
      | Some text \<Rightarrow>
          (case extract_loop text TARGETS \<lparr> written = [], extracted = [], missing_required = [] \<rparr> of
             (st, Some exc) \<Rightarrow> \<lparr> files = written st, manifest_json = None, exit_code = Inl exc \<rparr>
           | (st, None) \<Rightarrow>
               if missing_required st \<noteq> []
               then \<lparr> files = written st, manifest_json = None, exit_code = Inr 3 \<rparr>
               else \<lparr> files = written st,
                      manifest_json = Some \<lparr> m_source = src, m_files = extracted st,
                                             m_count = length (extracted st) \<rparr>,
                      exit_code = Inr 0 \<rparr>))"

text \<open>
  An occurrence of the opening pattern somewhere in a text, stated without the scan of
  \<open>finditer\<close>; and three sample texts.
\<close>

definition has_opening :: "string \<Rightarrow> string \<Rightarrow> bool" where
  "has_opening target s \<longleftrightarrow>
     (\<exists>pre marker post. s = pre @ opening_line target marker @ post
        \<and> marker \<noteq> [] \<and> CHR 0x27 \<notin> set marker)"

definition two_heredocs :: string where
  "two_heredocs =
     ''# installer'' @ [CHR 0x0A]
     @ opening_line ''T'' ''A'' @ ''one'' @ [CHR 0x0A] @ ''A'' @ [CHR 0x0A]
     @ opening_line ''T'' ''B'' @ ''two'' @ [CHR 0x0A] @ ''B'' @ [CHR 0x0A]"

definition unclosed_heredoc :: string where
  "unclosed_heredoc = opening_line ''T'' ''PY'' @ ''PY'' @ [CHR 0x0A]"

definition unclosed_first_target :: string where
  "unclosed_first_target =
     opening_line ''$DASH_DIR/pyqt_dashboard_improved.py'' ''XUI_HEREDOC_4'' @ ''import sys'' @ [CHR 0x0A]"

definition one_target_only :: string where
  "one_target_only =
     opening_line ''$DASH_DIR/pyqt_dashboard_improved.py'' ''A'' @ ''x'' @ [CHR 0x0A] @ ''A'' @ [CHR 0x0A]"

text \<open>
  In the words of the specification: one output file for every target whose heredoc is
  found, and the required targets that have none.
\<close>

definition found_files :: "string \<Rightarrow> (string \<times> string \<times> bool) list \<Rightarrow> (string \<times> string) list" where
  "found_files text ts =
     concat (map (\<lambda>(bash_target, out_name, required).
        case extract_last_heredoc text bash_target of
          Inr (Some block) \<Rightarrow> [(out_name, block)]
        | _ \<Rightarrow> []) ts)"

definition missing_targets :: "string \<Rightarrow> (string \<times> string \<times> bool) list \<Rightarrow> string list" where
  "missing_targets text ts =
     concat (map (\<lambda>(bash_target, out_name, required).
        if required \<and> extract_last_heredoc text bash_target = Inr None then [bash_target] else []) ts)"

text \<open>A source text holding a closed heredoc for each of the required targets.\<close>

definition heredoc :: "string \<Rightarrow> string \<Rightarrow> string \<Rightarrow> string" where
  "heredoc target marker body = opening_line target marker @ body @ [CHR 0x0A] @ marker @ [CHR 0x0A]"

definition all_required :: string where
  "all_required =
     concat (map (\<lambda>(bash_target, out_name, required).
        if required then heredoc bash_target ''PY'' ''pass'' else []) TARGETS)"

section \<open>The dedent scripts (xui/extract\_dashboard.py, xui/fix\_heredoc\_dedent.py)\<close>

text \<open>
  \<open>str.splitlines()\<close> on code points below 256: a line ends at \<open>\n\<close>, \<open>\r\<close>, \<open>\r\n\<close>,
  \<open>\x0b\<close>, \<open>\x0c\<close>, \<open>\x1c\<close>, \<open>\x1d\<close>, \<open>\x1e\<close> or \<open>\x85\<close>; the line ends are not kept and a
  final line end opens no further line.
\<close>

definition py_linebreak :: "char \<Rightarrow> bool" where
  "py_linebreak c = (c \<in> set [CHR 0x0A, CHR 0x0B, CHR 0x0C, CHR 0x0D, CHR 0x1C, CHR 0x1D,
                               CHR 0x1E, CHR 0x85])"

fun splitlines_from :: "string \<Rightarrow> string \<Rightarrow> string list" where
  "splitlines_from cur [] = (if cur = [] then [] else [cur])"
| "splitlines_from cur (c # cs) =
     (if c = CHR 0x0D then
        (case cs of
           [] \<Rightarrow> [cur]
         | d # ds \<Rightarrow> if d = CHR 0x0A then cur # splitlines_from [] ds
                     else cur # splitlines_from [] (d # ds))
      else if py_linebreak c then cur # splitlines_from [] cs
      else splitlines_from (cur @ [c]) cs)"

definition py_splitlines :: "string \<Rightarrow> string list" where
  "py_splitlines s = splitlines_from [] s"

text \<open>
  The step both scripts share: the leading white space of a line is group 1 of
  \<open>re.match(r'^(\s*)', ln)\<close>, a line counts when \<open>ln.strip()\<close> is not empty, and each
  line loses its first \<open>min_indent\<close> characters.
\<close>

definition leading_ws :: "string \<Rightarrow> nat" where
  "leading_ws l = length (takeWhile py_isspace l)"

fun py_min :: "nat list \<Rightarrow> nat" where
  "py_min [] = 0"
| "py_min (x # xs) = foldl min x xs"

definition indents :: "string list \<Rightarrow> nat list" where
  "indents lns = map leading_ws (filter (\<lambda>l. py_strip l \<noteq> []) lns)"

definition min_indent :: "string list \<Rightarrow> nat" where
  "min_indent lns = (if indents lns \<noteq> [] then py_min (indents lns) else 0)"

definition cut_indent :: "nat \<Rightarrow> string \<Rightarrow> string" where
  "cut_indent m l = (if length l \<ge> m then drop m l else [])"

definition dedent_lines :: "string list \<Rightarrow> string list" where
  "dedent_lines lns =
     (let m = min_indent lns in if m > 0 then map (cut_indent m) lns else lns)"

text \<open>
  \<open>extract_dashboard.py\<close>, lines 22 to 34: split, dedent, join, and strip leading newlines.
\<close>

definition extract_dashboard_dedent :: "string \<Rightarrow> string" where
  "extract_dashboard_dedent block =
     (let dedented = join [CHR 0x0A] (dedent_lines (py_splitlines block))
      in if take 1 dedented = [CHR 0x0A] then dropWhile (\<lambda>c. c = CHR 0x0A) dedented
         else dedented)"

text \<open>
  \<open>fix_heredoc_dedent.py\<close>, lines 19 to 34: the same step applied to the result of the
  library function \<open>textwrap.dedent\<close> (the parameter \<open>tw\<close>), then a final newline is
  ensured.
\<close>

definition fix_heredoc_dedent :: "(string \<Rightarrow> string) \<Rightarrow> string \<Rightarrow> string" where
  "fix_heredoc_dedent tw block =
     (let ded = tw block;
          new_block = join [CHR 0x0A] (dedent_lines (py_splitlines ded))
      in if new_block = [] \<or> last new_block \<noteq> CHR 0x0A then new_block @ [CHR 0x0A]
         else new_block)"

text \<open>A block indented by four columns with a blank first line and a short blank line.\<close>

definition indented_block :: string where
  "indented_block =
     [CHR 0x0A] @ ''    import sys'' @ [CHR 0x0A] @ ''  '' @ [CHR 0x0A]
     @ ''    def f():'' @ [CHR 0x0A] @ ''        return 1'' @ [CHR 0x0A]"
section \<open>The classes of the two dashboards\<close>

text \<open>
  A class statement runs its body from top to bottom.  Every assignment and every \<open>def\<close>
  of the body binds a name in the namespace of the class, and a later binding of a name
  replaces an earlier one.  A class is modelled by its name, its base class and the list of
  the bindings of its body in source order, each with its line.  A \<open>def\<close> carries the names
  of its parameters after \<open>self\<close> (all of them have defaults in the classes below) and a
  mark saying which text it is: the listener's \<open>__init__\<close>, the slot dialog's \<open>__init__\<close>,
  or another method.
\<close>

datatype def_text = ListenerInit | DialogInit | Method

datatype member =
    Assign string nat
  | Def string nat "string list" def_text

fun member_name :: "member \<Rightarrow> string" where
  "member_name (Assign n l) = n"
| "member_name (Def n l ps t) = n"

datatype qt_base = QObject | QDialog

record py_class =
  cls_name :: string
  cls_base :: qt_base
  cls_body :: "member list"

text \<open>The binding of a name that is in force once the class statement has finished.\<close>

definition class_attr :: "py_class \<Rightarrow> string \<Rightarrow> member option" where
  "class_attr c n = find (\<lambda>m. member_name m = n) (rev (cls_body c))"

text \<open>
  \<open>xui/pyqt_dashboard_improved_fixed.py\<close>: class \<open>SlotMachineDialog\<close> (line 164) holds the
  docstring and \<open>SYMBOLS\<close> only.  The body of class \<open>GamepadListener\<close> (line 171) runs to
  line 374: after the listener's own methods it contains the \<open>def\<close>s of the slot dialog,
  among them a second \<open>__init__\<close>.
\<close>

definition linux_SlotMachineDialog :: py_class where
  "linux_SlotMachineDialog =
     \<lparr> cls_name = ''SlotMachineDialog'', cls_base = QDialog,
       cls_body = [Assign ''SYMBOLS'' 168] \<rparr>"

definition linux_GamepadListener :: py_class where
  "linux_GamepadListener =
     \<lparr> cls_name = ''GamepadListener'', cls_base = QObject,
       cls_body =
         [Assign ''left'' 174, Assign ''right'' 175, Assign ''up'' 176, Assign ''down'' 177,
          Assign ''select'' 178, Assign ''back'' 179, Assign ''guide'' 180,
          Def ''__init__'' 182 [''parent'', ''settings''] ListenerInit,
          Def ''update_settings'' 216 [''cfg''] Method,
          Def ''poll'' 227 [] Method,
          Def ''_maybe_emit'' 265 [''direction'', ''now''] Method,
          Def ''_emit_direction'' 279 [''direction''] Method,
          Def ''__init__'' 288 [''parent''] DialogInit,
          Def ''_play_sound'' 330 [''fname''] Method,
          Def ''_advance_reel'' 339 [''i''] Method,
          Def ''spin'' 342 [] Method,
          Def ''_resolve'' 356 [] Method] \<rparr>"

text \<open>\<open>xui/win/pyqt_dashboard_improved.py\<close>: class \<open>SlotMachineDialog\<close> (line 23).\<close>

definition win_SlotMachineDialog :: py_class where
  "win_SlotMachineDialog =
     \<lparr> cls_name = ''SlotMachineDialog'', cls_base = QDialog,
       cls_body =
         [Assign ''SYMBOLS'' 24,
          Def ''__init__'' 26 [''parent''] DialogInit,
          Def ''_play_sound'' 63 [''fname''] Method,
          Def ''_advance_reel'' 76 [''i''] Method,
          Def ''spin'' 79 [] Method,
          Def ''_resolve'' 93 [] Method] \<rparr>"

text \<open>
  Looking a name up on an instance: the class first, then the Qt base class.  Of the names
  that the modelled code looks up, \<open>QDialog\<close> (a widget) provides \<open>setWindowTitle\<close>,
  \<open>setModal\<close> and \<open>exec_\<close>; \<open>QObject\<close> provides none of them, and neither base class has
  a \<open>spin\<close> or a \<open>_resolve\<close>.  A name found nowhere raises \<open>AttributeError\<close>.
\<close>

definition qt_defines :: "qt_base \<Rightarrow> string \<Rightarrow> bool" where
  "qt_defines b n =
     (case b of
        QObject \<Rightarrow> False
      | QDialog \<Rightarrow> n \<in> set [''setWindowTitle'', ''setModal'', ''exec_''])"

datatype attr = Own member | Inherited

definition no_attribute :: "py_class \<Rightarrow> string \<Rightarrow> py_error" where
  "no_attribute c n = AttributeError
     ([CHR 0x27] @ cls_name c @ [CHR 0x27] @ '' object has no attribute '' @ [CHR 0x27] @ n @ [CHR 0x27])"

definition instance_attr :: "py_class \<Rightarrow> string \<Rightarrow> py_error + attr" where
  "instance_attr c n =
     (case class_attr c n of
        Some m \<Rightarrow> Inr (Own m)
      | None \<Rightarrow> if qt_defines (cls_base c) n then Inr Inherited else Inl (no_attribute c n))"

text \<open>
  Calling the class with \<open>nargs\<close> positional arguments.  Without an \<open>__init__\<close> of its own
  the class uses the constructor of Qt.  Otherwise the \<open>__init__\<close> in force is called, and
  more positional arguments than it has parameters raise \<open>TypeError\<close> before its body
  starts (the message is the one of Python 3.10 and later).
\<close>

definition too_many_arguments :: "py_class \<Rightarrow> nat \<Rightarrow> nat \<Rightarrow> py_error" where
  "too_many_arguments c nparams nargs = TypeError
     (cls_name c @ ''.__init__() takes from 1 to '' @ str_int (int nparams + 1)
        @ '' positional arguments but '' @ str_int (int nargs + 1) @ '' were given'')"

definition bind_init :: "py_class \<Rightarrow> nat \<Rightarrow> py_error + def_text option" where
  "bind_init c nargs =
     (case class_attr c ''__init__'' of
        None \<Rightarrow> Inr None
      | Some (Assign n l) \<Rightarrow> Inr None
      | Some (Def n l ps t) \<Rightarrow>
          if nargs > length ps then Inl (too_many_arguments c (length ps) nargs) else Inr (Some t))"

section \<open>The slot machine of the two dashboards\<close>

text \<open>
  The slot dialog is written in \<open>xui/win/pyqt_dashboard_improved.py\<close> as class
  \<open>SlotMachineDialog\<close>: \<open>__init__\<close> (lines 26 to 61), \<open>spin\<close> (lines 79 to 91) and
  \<open>_resolve\<close> (lines 93 to 111).  In \<open>xui/pyqt_dashboard_improved_fixed.py\<close> the same
  three texts stand at lines 288 to 328, 342 to 354 and 356 to 374, in the body of class
  \<open>GamepadListener\<close>; which class a text belongs to is recorded in the class tables above.

  The dialog has three reel labels and three timers (both built with \<open>range(3)\<close>).  What
  the functions do to the toolkit is a list of events; the message boxes are named by their
  kind and arguments, and \<open>PlaySound\<close> stands for the call of the sound routine once the
  \<open>sounds\<close> check has passed.
\<close>

datatype notice =
    NoCredits
  | Won string int
  | PartialWin "string list" int
  | NoPrize

datatype shot = StopTimer nat | Resolve

datatype ui_event =
    MessageBox notice
  | ShowCredits int
  | PlaySound string
  | TimerStart nat nat
  | SingleShot nat shot
  | SaveCredits int

record slot_dialog =
  credits :: int
  sounds :: bool
  reels :: "string \<times> string \<times> string"
  timers :: "nat option \<times> nat option \<times> nat option"

definition play_sound_if :: "slot_dialog \<Rightarrow> string \<Rightarrow> ui_event list" where
  "play_sound_if d fname = (if \<not> sounds d then [] else [PlaySound fname])"

text \<open>
  The text of the dialog's \<open>__init__\<close>, run on an instance of class \<open>c\<close>.  After the
  constructor of the base class it calls \<open>self.setWindowTitle\<close> and \<open>self.setModal\<close>,
  reads the credits and the sound setting (two \<open>try\<close> blocks that fall back to 100 and to
  \<open>True\<close>; what they leave in the two fields is given as \<open>creds\<close> and \<open>snds\<close>), builds
  the three reel labels with empty text, connects the button to \<open>self.spin\<close>, and builds
  the three timers, none of them started.
\<close>

definition dialog_init :: "py_class \<Rightarrow> int \<Rightarrow> bool \<Rightarrow> py_error + slot_dialog" where
  "dialog_init c creds snds =
     bnd (instance_attr c ''setWindowTitle'') (\<lambda>_.
     bnd (instance_attr c ''setModal'') (\<lambda>_.
     bnd (instance_attr c ''spin'') (\<lambda>_.
       Inr \<lparr> credits = creds, sounds = snds, reels = ([], [], []),
             timers = (None, None, None) \<rparr>)))"

text \<open>\<open>spin\<close> and \<open>_resolve\<close> of \<open>xui/win/pyqt_dashboard_improved.py\<close>.\<close>

definition spin_win :: "slot_dialog \<Rightarrow> slot_dialog \<times> ui_event list" where
  "spin_win d =
     (if credits d < 10 then (d, [MessageBox NoCredits])
      else
        (let d1 = d \<lparr> credits := credits d - 10 \<rparr>;
             intervals = [50, 70, 90];
             durations = [800, 1400, 2000]
         in (d1 \<lparr> timers := (Some (intervals ! 0), Some (intervals ! 1), Some (intervals ! 2)) \<rparr>,
             [ShowCredits (credits d1)] @ play_sound_if d1 ''click.mp3''
             @ concat (map (\<lambda>i. [TimerStart i (intervals ! i), SingleShot (durations ! i) (StopTimer i)])
                         [0, 1, 2])
             @ [SingleShot (Max (set durations) + 50) Resolve])))"

definition resolve_win :: "slot_dialog \<Rightarrow> slot_dialog \<times> ui_event list" where
  "resolve_win d =
     (case reels d of (v0, v1, v2) \<Rightarrow>
        (let (d1, evs) =
           (if v0 = v1 \<and> v1 = v2 then
              (let win = (if v0 = ''7'' then 200 else 50)
               in (d \<lparr> credits := credits d + win \<rparr>,
                   [MessageBox (Won v0 win)] @ play_sound_if d ''startup.mp4''))
            else if v0 = v1 \<or> v1 = v2 \<or> v0 = v2 then
              (let win = 20
               in (d \<lparr> credits := credits d + win \<rparr>,
                   [MessageBox (PartialWin [v0, v1, v2] win)] @ play_sound_if d ''startup.mp4''))
            else (d, [MessageBox NoPrize]))
         in (d1, evs @ [ShowCredits (credits d1), SaveCredits (credits d1)])))"

text \<open>The payout in the words of the specification.\<close>

definition exactly_two_match :: "string \<times> string \<times> string \<Rightarrow> bool" where
  "exactly_two_match r =
     (case r of (a, b, c) \<Rightarrow> (a = b \<and> b \<noteq> c) \<or> (b = c \<and> a \<noteq> b) \<or> (a = c \<and> a \<noteq> b))"

definition payout :: "string \<times> string \<times> string \<Rightarrow> int" where
  "payout r =
     (case r of (a, b, c) \<Rightarrow>
        if a = b \<and> b = c \<and> a = ''7'' then 200
        else if a = b \<and> b = c then 50
        else if exactly_two_match r then 20
        else 0)"

definition is_timer_start :: "ui_event \<Rightarrow> bool" where
  "is_timer_start ev = (case ev of TimerStart i n \<Rightarrow> True | _ \<Rightarrow> False)"

definition poor_dialog :: slot_dialog where
  "poor_dialog = \<lparr> credits = 5, sounds = True, reels = ([], [], []), timers = (None, None, None) \<rparr>"

definition rich_dialog :: slot_dialog where
  "rich_dialog = \<lparr> credits = 100, sounds = True, reels = (''7'', ''7'', ''7''),
                    timers = (None, None, None) \<rparr>"

section \<open>The gamepad listener (xui/pyqt\_dashboard\_improved\_fixed.py)\<close>

text \<open>
  \<open>poll\<close> (lines 227 to 263), \<open>_maybe_emit\<close> (lines 265 to 277) and \<open>_emit_direction\<close>
  (lines 279 to 286), on the fields that the \<open>def __init__\<close> of lines 182 to 214 assigns.
  Times and axis positions are Python floats; they are modelled as real numbers, without
  rounding.  A joystick is given by what \<open>pygame\<close> reports for it at the time of the poll:
  its id, its axis positions and its button states; button numbers are natural numbers.
  The signals emitted by a poll are listed in order.
\<close>

datatype direction = DirLeft | DirRight | DirUp | DirDown

datatype signal = SigLeft | SigRight | SigUp | SigDown | SigSelect | SigBack | SigGuide

record joystick =
  joy_id :: int
  axes :: "real list"
  buttons :: "bool list"

record listener =
  deadzone :: real
  repeat_initial :: int
  repeat_rate :: int
  btn_select :: nat
  btn_back :: nat
  btn_guide :: nat
  last_emit :: "direction \<Rightarrow> real"
  held :: "direction \<Rightarrow> bool"
  last_buttons :: "int \<Rightarrow> (nat \<Rightarrow> bool option) option"

fun emit_direction :: "direction \<Rightarrow> signal list" where
  "emit_direction DirLeft = [SigLeft]"
| "emit_direction DirRight = [SigRight]"
| "emit_direction DirUp = [SigUp]"
| "emit_direction DirDown = [SigDown]"

definition maybe_emit :: "direction \<Rightarrow> real \<Rightarrow> listener \<Rightarrow> listener \<times> signal list" where
  "maybe_emit dir now g =
     (let last = last_emit g dir; was_held = held g dir in
      if \<not> was_held then
        (g \<lparr> held := (held g)(dir := True), last_emit := (last_emit g)(dir := now) \<rparr>,
         emit_direction dir)
      else if now - last \<ge> real_of_int (repeat_rate g) then
        (g \<lparr> last_emit := (last_emit g)(dir := now) \<rparr>, emit_direction dir)
      else (g, []))"

definition poll_axis ::
  "real \<Rightarrow> direction \<Rightarrow> direction \<Rightarrow> real \<Rightarrow> listener \<Rightarrow> listener \<times> signal list" where
  "poll_axis ax neg pos now g =
     (if ax < - deadzone g then maybe_emit neg now g
      else if ax > deadzone g then maybe_emit pos now g
      else (g \<lparr> held := (held g)(neg := False, pos := False) \<rparr>, []))"

definition button_value :: "joystick \<Rightarrow> nat \<Rightarrow> bool" where
  "button_value j b = (if length (buttons j) > b then buttons j ! b else False)"

definition poll_buttons :: "joystick \<Rightarrow> listener \<Rightarrow> listener \<times> signal list" where
  "poll_buttons j g =
     (let bsel = button_value j (btn_select g);
          bback = button_value j (btn_back g);
          bguide = button_value j (btn_guide g);
          prev = (case last_buttons g (joy_id j) of None \<Rightarrow> (\<lambda>b. None) | Some m \<Rightarrow> m);
          was = (\<lambda>b. case prev b of None \<Rightarrow> False | Some v \<Rightarrow> v)
      in (g \<lparr> last_buttons := (last_buttons g)
                 (joy_id j \<mapsto> (Map.empty)(btn_select g \<mapsto> bsel, btn_back g \<mapsto> bback,
                                              btn_guide g \<mapsto> bguide)) \<rparr>,
          (if bsel \<and> \<not> was (btn_select g) then [SigSelect] else [])
          @ (if bback \<and> \<not> was (btn_back g) then [SigBack] else [])
          @ (if bguide \<and> \<not> was (btn_guide g) then [SigGuide] else [])))"

definition poll_joystick :: "real \<Rightarrow> joystick \<Rightarrow> listener \<Rightarrow> listener \<times> signal list" where
  "poll_joystick now j g =
     (let ax0 = (if length (axes j) > 0 then axes j ! 0 else 0);
          ax1 = (if length (axes j) > 1 then axes j ! 1 else 0);
          (g1, s1) = poll_axis ax0 DirLeft DirRight now g;
          (g2, s2) = poll_axis ax1 DirUp DirDown now g1;
          (g3, s3) = poll_buttons j g2
      in (g3, s1 @ s2 @ s3))"

fun poll :: "real \<Rightarrow> listener \<Rightarrow> joystick list \<Rightarrow> listener \<times> signal list" where
  "poll now g [] = (g, [])"
| "poll now g (j # js) =
     (case poll_joystick now j g of (g1, s1) \<Rightarrow>
        (case poll now g1 js of (g2, s2) \<Rightarrow> (g2, s1 @ s2)))"

text \<open>
  The \<open>def __init__\<close> of lines 182 to 214.  It assigns the defaults (lines 187 to 195),
  applies the settings, and sets \<open>inited\<close> when \<open>pygame\<close> is present and the joysticks and
  the timer could be set up.

  \<open>update_settings\<close> (lines 216 to 225) converts and assigns six entries of the settings one
  after the other inside one \<open>try\<close>: an entry that is absent leaves the field as it is, and
  the first conversion that fails ends the updates.  Each entry is given by what its
  conversion does.  Settings without entries change nothing, so the test \<open>if settings\<close>
  needs no case of its own.
\<close>

datatype 'a conv = Absent | Converts 'a | Fails

record gamepad_cfg =
  cfg_deadzone :: "real conv"
  cfg_repeat_initial :: "int conv"
  cfg_repeat_rate :: "int conv"
  cfg_select_btn :: "nat conv"
  cfg_back_btn :: "nat conv"
  cfg_guide_btn :: "nat conv"

fun conv_or :: "'a conv \<Rightarrow> 'a \<Rightarrow> 'a" where
  "conv_or (Converts v) d = v"
| "conv_or x d = d"

definition update_settings :: "gamepad_cfg \<Rightarrow> listener \<Rightarrow> listener" where
  "update_settings cfg g =
     (if cfg_deadzone cfg = Fails then g else
      let g1 = g \<lparr> deadzone := conv_or (cfg_deadzone cfg) (deadzone g) \<rparr> in
      if cfg_repeat_initial cfg = Fails then g1 else
      let g2 = g1 \<lparr> repeat_initial := conv_or (cfg_repeat_initial cfg) (repeat_initial g1) \<rparr> in
      if cfg_repeat_rate cfg = Fails then g2 else
      let g3 = g2 \<lparr> repeat_rate := conv_or (cfg_repeat_rate cfg) (repeat_rate g2) \<rparr> in
      if cfg_select_btn cfg = Fails then g3 else
      let g4 = g3 \<lparr> btn_select := conv_or (cfg_select_btn cfg) (btn_select g3) \<rparr> in
      if cfg_back_btn cfg = Fails then g4 else
      let g5 = g4 \<lparr> btn_back := conv_or (cfg_back_btn cfg) (btn_back g4) \<rparr> in
      if cfg_guide_btn cfg = Fails then g5 else
      g5 \<lparr> btn_guide := conv_or (cfg_guide_btn cfg) (btn_guide g5) \<rparr>)"

definition listener_defaults :: listener where
  "listener_defaults =
     \<lparr> deadzone = 6 / 10, repeat_initial = 350, repeat_rate = 120,
       btn_select = 0, btn_back = 1, btn_guide = 3,
       last_emit = (\<lambda>d. 0), held = (\<lambda>d. False), last_buttons = (\<lambda>i. None) \<rparr>"

definition listener_init :: "gamepad_cfg \<Rightarrow> bool \<Rightarrow> listener \<times> bool" where
  "listener_init cfg pygame_ready = (update_settings cfg listener_defaults, pygame_ready)"

text \<open>A stick held to the left, and an idle stick.\<close>

definition pad_left :: joystick where
  "pad_left = \<lparr> joy_id = 0, axes = [- 1, 0], buttons = [] \<rparr>"

definition pad_idle :: joystick where
  "pad_idle = \<lparr> joy_id = 1, axes = [0, 0], buttons = [] \<rparr>"

section \<open>Creating the dialog and the listener\<close>

text \<open>
  What a call of a class gives: an object set up by Qt alone, a listener with its fields and
  its \<open>inited\<close> flag, or a slot dialog with its fields.  \<open>init_env\<close> holds what the two
  \<open>__init__\<close> texts read from outside: the gamepad settings, whether \<open>pygame\<close> is present
  and could be set up, and the credits and the sound setting found on disk.
\<close>

datatype py_object = QtOnly | Listener listener bool | Dialog slot_dialog

record init_env =
  env_gamepad :: gamepad_cfg
  env_pygame :: bool
  env_credits :: int
  env_sounds :: bool

definition construct :: "py_class \<Rightarrow> nat \<Rightarrow> init_env \<Rightarrow> py_error + py_object" where
  "construct c nargs env =
     bnd (bind_init c nargs) (\<lambda>i.
       case i of
         None \<Rightarrow> Inr QtOnly
       | Some ListenerInit \<Rightarrow>
           (case listener_init (env_gamepad env) (env_pygame env) of (g, ok) \<Rightarrow> Inr (Listener g ok))
       | Some DialogInit \<Rightarrow>
           bnd (dialog_init c (env_credits env) (env_sounds env)) (\<lambda>d. Inr (Dialog d))
       | Some Method \<Rightarrow> Inr QtOnly)"

text \<open>
  The Casino tile (\<open>on_tile_clicked\<close>: line 918 of the Linux file, line 269 of the Windows
  file) calls \<open>SlotMachineDialog(self)\<close> and then \<open>exec_\<close> on the result.
\<close>

definition open_casino :: "py_class \<Rightarrow> init_env \<Rightarrow> py_error + py_object" where
  "open_casino c env =
     bnd (construct c 1 env) (\<lambda>dlg.
     bnd (instance_attr c ''exec_'') (\<lambda>_. Inr dlg))"

text \<open>
  The gamepad support of the Linux dashboard (lines 565 to 577): \<open>GamepadListener(self, cfg)\<close>
  inside a \<open>try\<close> whose handler is \<open>pass\<close>; the signals are connected only when the listener
  says \<open>inited\<close>, which is also when its timer calls \<open>poll\<close>.  \<open>dashboard_signals\<close> are
  the signals that reach the dashboard over a sequence of timer ticks, each given by its
  time and the state of the joysticks.
\<close>

fun run_polls :: "listener \<Rightarrow> (real \<times> joystick list) list \<Rightarrow> signal list" where
  "run_polls g [] = []"
| "run_polls g ((now, js) # rest) =
     (case poll now g js of (g1, s) \<Rightarrow> s @ run_polls g1 rest)"

definition gamepad_setup :: "init_env \<Rightarrow> listener option" where
  "gamepad_setup env =
     (case construct linux_GamepadListener 2 env of
        Inl e \<Rightarrow> None
      | Inr (Listener g ok) \<Rightarrow> if ok then Some g else None
      | Inr other \<Rightarrow> None)"

definition dashboard_signals :: "init_env \<Rightarrow> (real \<times> joystick list) list \<Rightarrow> signal list" where
  "dashboard_signals env ticks =
     (case gamepad_setup env of None \<Rightarrow> [] | Some g \<Rightarrow> run_polls g ticks)"

text \<open>A machine with \<open>pygame\<close>, no gamepad settings, 100 credits and sounds on.\<close>

definition no_cfg :: gamepad_cfg where
  "no_cfg = \<lparr> cfg_deadzone = Absent, cfg_repeat_initial = Absent, cfg_repeat_rate = Absent,
              cfg_select_btn = Absent, cfg_back_btn = Absent, cfg_guide_btn = Absent \<rparr>"

definition plain_env :: init_env where
  "plain_env = \<lparr> env_gamepad = no_cfg, env_pygame = True, env_credits = 100, env_sounds = True \<rparr>"
section \<open>Facts about the update checker\<close>

lemma py_strip_Nil [simp]: "py_strip [] = []"
  by (simp add: py_strip_def)

lemma str_or_Nil [simp]: "str_or s [] = s"
  by (simp add: str_or_def)

lemma bnd_eq_Inr: "bnd m f = Inr b \<longleftrightarrow> (\<exists>a. m = Inr a \<and> f a = Inr b)"
  by (cases m) auto

lemma bnd_eq_Inl: "bnd m f = Inl x \<longleftrightarrow> m = Inl x \<or> (\<exists>a. m = Inr a \<and> f a = Inl x)"
  by (cases m) auto


lemma remote_meta_body_fail_branch: "remote_meta_body w tb = Inr (MetaFail err mb) \<Longrightarrow> mb = tb"
  unfolding remote_meta_body_def Let_def
  by (auto simp: bnd_eq_Inr split: if_splits)


lemma fetch_raised_meta_fail:
  "urlopen_json w (commits_url w tb) = HttpRaised m \<Longrightarrow> remote_meta w tb = MetaFail m tb"
  by (simp add: remote_meta_def remote_meta_body_def fetch_json_def)

lemma remote_meta_fail_branch: "remote_meta w tb = MetaFail err mb \<Longrightarrow> mb = tb"
  unfolding remote_meta_def
  by (auto split: sum.splits dest: remote_meta_body_fail_branch)

lemma empty_sha_meta_fail:
  assumes "urlopen_json w (commits_url w tb) = HttpJson commit"
    and "py_get commit ''sha'' (JStr []) = Inr v"
    and "py_strip (py_str (py_or v (JStr []))) = []"
  shows "\<exists>err. remote_meta w tb = MetaFail err tb"
proof (cases "remote_meta w tb")
  case (MetaOk mb sha date url)
  then have "remote_meta_body w tb = Inr (MetaOk mb sha date url)"
    by (auto simp: remote_meta_def split: sum.splits)
  with assms have False
    unfolding remote_meta_body_def Let_def fetch_json_def
    by (auto simp: bnd_eq_Inr split: if_splits)
  then show ?thesis ..
next
  case (MetaFail err mb)
  then show ?thesis using remote_meta_fail_branch by blast
qed


lemma offline_remote_meta:
  "remote_meta offline_world ''windows'' = MetaFail ''<urlopen error timed out>'' ''windows''"
  by (simp add: remote_meta_def remote_meta_body_def fetch_json_def offline_world_def)


lemma offline_local_commit: "local_commit_of offline_world = Inr ''abc123''"
  by (simp add: local_commit_of_def read_state_commit_def read_field_def online_world_def
      offline_world_def py_or_def py_strip_def py_isspace_def)

lemma status_fields_mandatory: "mandatory (status_fields w tb lc)"
  by (simp add: status_fields_def emit_json_def Let_def split: meta.splits)

lemma status_fields_local: "local_commit (status_fields w tb lc) = lc"
  by (simp add: status_fields_def emit_json_def Let_def split: meta.splits)

lemma compute_status_json:
  "compute_status w tb True = Inr (PrintedJson s, code) \<Longrightarrow>
     \<exists>lc. local_commit_of w = Inr lc \<and> s = status_fields w tb lc"
  by (auto simp: compute_status_def bnd_eq_Inr Let_def)


lemma fresh_local_commit: "local_commit_of fresh_clone_world = Inr ''def456''"
  by (simp add: local_commit_of_def read_state_commit_def read_field_def online_world_def
      fresh_clone_world_def which_ok_def py_strip_def py_isspace_def)

lemma fresh_remote_meta:
  "remote_meta fresh_clone_world ''windows'' =
     MetaOk ''windows'' ''def456'' ''2026-01-01T00:00:00Z''
       ''https://github.com/afitler79-alt/XUI-X360-FRONTEND/commit/def456''"
  by (simp add: remote_meta_def remote_meta_body_def fetch_json_def commits_url_def REPO_def
      environ_or_def online_world_def fresh_clone_world_def github_commit_def py_or_def py_strip_def py_isspace_def
      str_or_def)


text \<open>
  Claim C8.  When the metadata fetch fails or gives an empty SHA (\<open>remote_meta\<close> returns its
  failure dictionary, see \<open>fetch_raised_meta_fail\<close> and \<open>empty_sha_meta_fail\<close>),
  \<open>compute_status\<close> reports \<open>checked = false\<close> and \<open>update_required = false\<close> and returns 0;
  the \<open>mandatory\<close> field of every emitted object is true.
\<close>

theorem remote_failure_never_requires_update:
  "(local_commit_of w = Inr lc \<and> remote_meta w tb = MetaFail err mb \<longrightarrow>
      (\<exists>s. compute_status w tb json_out =
              Inr (if json_out then PrintedJson s else PrintedText (status_text s), 0)
           \<and> \<not> checked s \<and> \<not> update_required s
           \<and> reason s = ''remote-unavailable:'' @ err \<and> mandatory s))
   \<and> mandatory (emit_json w' c r rs b l rc rd ru)
   \<and> (compute_status w'' tb'' True = Inr (PrintedJson s'', code) \<longrightarrow> mandatory s'')"
proof (intro conjI impI)
  assume "local_commit_of w = Inr lc \<and> remote_meta w tb = MetaFail err mb"
  then show "\<exists>s. compute_status w tb json_out =
              Inr (if json_out then PrintedJson s else PrintedText (status_text s), 0)
           \<and> \<not> checked s \<and> \<not> update_required s
           \<and> reason s = ''remote-unavailable:'' @ err \<and> mandatory s"
    by (intro exI [of _ "status_fields w tb lc"])
       (simp add: compute_status_def status_fields_def emit_json_def)
next
  show "mandatory (emit_json w' c r rs b l rc rd ru)"
    by (simp add: emit_json_def)
next
  assume "compute_status w'' tb'' True = Inr (PrintedJson s'', code)"
  then show "mandatory s''"
    using compute_status_json status_fields_mandatory by blast
qed

text \<open>A network timeout with an installed commit on record.\<close>

theorem remote_failure_never_requires_update_witness:
  "local_commit_of offline_world = Inr ''abc123''
   \<and> remote_meta offline_world ''windows'' = MetaFail ''<urlopen error timed out>'' ''windows''
   \<and> (\<exists>s. compute_status offline_world ''windows'' True = Inr (PrintedJson s, 0)
          \<and> \<not> checked s \<and> \<not> update_required s \<and> mandatory s
          \<and> reason s = ''remote-unavailable:<urlopen error timed out>'')"
  using remote_failure_never_requires_update
    [of offline_world "''abc123''" "''windows''" "''<urlopen error timed out>''" "''windows''" True
        offline_world True True "[]" "[]" "[]" "[]" "[]" "[]" offline_world "''windows''"]
    offline_local_commit offline_remote_meta
  by auto

text \<open>
  Claim C7, as amended.  The local commit that is compared and reported is the stripped
  \<open>installed_commit\<close> of the state file when that is non-empty; when it is empty and
  \<open>SRC/.git\<close> exists and \<open>git\<close> is on the path, it is the stripped output of
  \<open>git -C SRC rev-parse HEAD\<close> (empty when that command fails); otherwise it is empty.
\<close>

theorem local_commit_is_state_or_git_head:
  "(read_state_commit w = Inr sc \<longrightarrow>
      local_commit_of w = Inr
        (if sc \<noteq> [] then sc
         else if path_exists w (path_join w (SRC w) ''.git'') \<and> which_ok w ''git''
         then (case check_output w [''git'', ''-C'', SRC w, ''rev-parse'', ''HEAD''] of
                 None \<Rightarrow> [] | Some out \<Rightarrow> py_strip out)
         else []))
   \<and> (state_file w = Parsed (JObj kvs) \<and> map_of kvs ''installed_commit'' = Some (JStr c) \<longrightarrow>
        read_state_commit w = Inr (py_strip c))
   \<and> (compute_status w tb True = Inr (PrintedJson s, code) \<longrightarrow>
        local_commit_of w = Inr (local_commit s))"
proof (intro conjI impI)
  assume "read_state_commit w = Inr sc"
  then show "local_commit_of w = Inr
        (if sc \<noteq> [] then sc
         else if path_exists w (path_join w (SRC w) ''.git'') \<and> which_ok w ''git''
         then (case check_output w [''git'', ''-C'', SRC w, ''rev-parse'', ''HEAD''] of
                 None \<Rightarrow> [] | Some out \<Rightarrow> py_strip out)
         else [])"
    by (simp add: local_commit_of_def split: option.splits)
next
  assume "state_file w = Parsed (JObj kvs) \<and> map_of kvs ''installed_commit'' = Some (JStr c)"
  then show "read_state_commit w = Inr (py_strip c)"
    by (simp add: read_state_commit_def read_field_def py_or_def)
next
  assume "compute_status w tb True = Inr (PrintedJson s, code)"
  then show "local_commit_of w = Inr (local_commit s)"
    using compute_status_json status_fields_local by fastforce
qed

text \<open>
  Claim C7 as stated fails: with no state file and a git checkout at the remote commit, the
  stored commit is empty, yet the status compares the checkout's HEAD and reports
  \<open>up-to-date\<close>.
\<close>

theorem local_commit_not_always_state_file:
  "read_state_commit fresh_clone_world = Inr []
   \<and> local_commit_of fresh_clone_world = Inr ''def456''
   \<and> compute_status fresh_clone_world ''windows'' True =
       Inr (PrintedJson \<lparr> checked = True, mandatory = True, update_required = False,
              reason = ''up-to-date'', repo = ''afitler79-alt/XUI-X360-FRONTEND'',
              branch = ''windows'', local_commit = ''def456'', remote_commit = ''def456'',
              remote_date = ''2026-01-01T00:00:00Z'',
              remote_url = ''https://github.com/afitler79-alt/XUI-X360-FRONTEND/commit/def456'' \<rparr>, 0)"
proof -
  have r: "REPO fresh_clone_world = ''afitler79-alt/XUI-X360-FRONTEND''"
    by (simp add: REPO_def environ_or_def fresh_clone_world_def online_world_def
        py_strip_def py_isspace_def str_or_def)
  have s: "read_state_commit fresh_clone_world = Inr []"
    by (simp add: read_state_commit_def read_field_def fresh_clone_world_def)
  show ?thesis
    by (simp add: s r compute_status_def status_fields_def emit_json_def
        fresh_local_commit fresh_remote_meta str_or_def Let_def)
qed

text \<open>The amended C7 at an installation with a state file and at a fresh clone.\<close>

theorem local_commit_is_state_or_git_head_witness:
  "read_state_commit online_world = Inr ''abc123''
   \<and> local_commit_of online_world = Inr ''abc123''
   \<and> read_state_commit fresh_clone_world = Inr []
   \<and> local_commit_of fresh_clone_world = Inr ''def456''"
proof -
  have a: "read_state_commit online_world = Inr ''abc123''"
    by (simp add: read_state_commit_def read_field_def online_world_def py_or_def
        py_strip_def py_isspace_def)
  have b: "read_state_commit fresh_clone_world = Inr []"
    by (simp add: read_state_commit_def read_field_def fresh_clone_world_def)
  have c: "which_ok fresh_clone_world ''git''"
    "path_exists fresh_clone_world (path_join fresh_clone_world (SRC fresh_clone_world) ''.git'')"
    "check_output fresh_clone_world [''git'', ''-C'', SRC fresh_clone_world, ''rev-parse'', ''HEAD'']
       = Some (''def456'' @ [CHR 0x0A])"
    by (simp_all add: which_ok_def fresh_clone_world_def online_world_def)
  have d: "py_strip (''def456'' @ [CHR 0x0A]) = ''def456''"
    by (simp add: py_strip_def py_isspace_def)
  from local_commit_is_state_or_git_head [THEN conjunct1, of online_world "''abc123''"] a
  have e: "local_commit_of online_world = Inr ''abc123''" by simp
  from local_commit_is_state_or_git_head [THEN conjunct1, of fresh_clone_world "[]"] b c d
  have f: "local_commit_of fresh_clone_world = Inr ''def456''" by simp
  from a b e f show ?thesis by simp
qed

section \<open>Facts about applying an update\<close>

lemma seq_simps [simp]:
  "seq (t, Value a) f = (t @ fst (f a), snd (f a))"
  "seq (t, Return c) f = (t, Return c)"
  "seq (t, Raised x) f = (t, Raised x)"
  by (simp_all add: seq_def split: prod.splits)

lemma actions_simps [simp]:
  "actions [] = []"
  "actions (Print s # t) = actions t"
  "actions (HttpGet u # t) = HttpGet u # actions t"
  "actions (Mkdir d # t) = Mkdir d # actions t"
  "actions (Run c cwd # t) = Run c cwd # actions t"
  "actions (CheckOutput c # t) = CheckOutput c # actions t"
  "actions (WriteState p # t) = WriteState p # actions t"
  "actions (t @ t') = actions t @ actions t'"
  "actions (map Print ls) = []"
  by (simp_all add: actions_def comp_def)





lemma seq_emit [simp]: "seq (emit ev) f = (ev # fst (f ()), snd (f ()))"
  by (simp add: emit_def)










declare guarded_seq.simps [simp del]
















lemma update_plan_eq:
  "update_plan w tb git br cmd p =
     HttpGet (commits_url w tb) # git_plan w git br
       @ [Run cmd (Some (SRC w)), CheckOutput (git_rev_parse w git), WriteState p]"
  by (simp add: update_plan_def git_plan_def)


lemma git_event_facts:
  "\<forall>ev \<in> set t. git_event ev \<Longrightarrow> Run c (Some d) \<notin> set t \<and> WriteState p \<notin> set t"
  by auto



lemma guarded_seq_Nil [simp]: "guarded_seq w [] k = k"
  by (simp add: guarded_seq.simps)



















lemma update_plan_writable:
  "update_plan w tb git br cmd p
     = (HttpGet (commits_url w tb) # git_plan w git br)
       @ [Run cmd (Some (SRC w)), CheckOutput (git_rev_parse w git)] @ [WriteState p]"
  "butlast (update_plan w tb git br cmd p)
     = (HttpGet (commits_url w tb) # git_plan w git br)
       @ [Run cmd (Some (SRC w)), CheckOutput (git_rev_parse w git)]"
  by (simp_all add: update_plan_eq butlast_append)




section \<open>Facts about payload extraction\<close>

lemma strip_prefix_Some: "strip_prefix p s = Some r \<longleftrightarrow> s = p @ r"
  by (induction p s rule: strip_prefix.induct) auto

lemma match_at_iff:
  "match_at target s = Some (marker, rest) \<longleftrightarrow>
     s = opening_line target marker @ rest \<and> marker \<noteq> [] \<and> CHR 0x27 \<notin> set marker"
proof
  assume m: "match_at target s = Some (marker, rest)"
  then obtain r where r: "s = open_prefix target @ r"
    and mk: "marker = takeWhile (\<lambda>c. c \<noteq> CHR 0x27) r" and ne: "marker \<noteq> []"
    and t: "take 2 (dropWhile (\<lambda>c. c \<noteq> CHR 0x27) r) = [CHR 0x27, CHR 0x0A]"
    and rest: "rest = drop 2 (dropWhile (\<lambda>c. c \<noteq> CHR 0x27) r)"
    by (auto simp: match_at_def Let_def strip_prefix_Some split: option.splits if_splits)
  have "dropWhile (\<lambda>c. c \<noteq> CHR 0x27) r = [CHR 0x27, CHR 0x0A] @ rest"
    using t rest by (metis append_take_drop_id)
  then have "r = marker @ [CHR 0x27, CHR 0x0A] @ rest"
    using mk by (metis takeWhile_dropWhile_id)
  moreover have "CHR 0x27 \<notin> set marker"
    unfolding mk by (auto dest: set_takeWhileD)
  ultimately show "s = opening_line target marker @ rest \<and> marker \<noteq> [] \<and> CHR 0x27 \<notin> set marker"
    using r ne by (simp add: opening_line_def)
next
  assume a: "s = opening_line target marker @ rest \<and> marker \<noteq> [] \<and> CHR 0x27 \<notin> set marker"
  then have s: "s = open_prefix target @ (marker @ CHR 0x27 # CHR 0x0A # rest)"
    by (simp add: opening_line_def)
  have tw: "takeWhile (\<lambda>c. c \<noteq> CHR 0x27) (marker @ CHR 0x27 # CHR 0x0A # rest) = marker"
    using a by (auto simp: takeWhile_tail)
  have dw: "dropWhile (\<lambda>c. c \<noteq> CHR 0x27) (marker @ CHR 0x27 # CHR 0x0A # rest) = CHR 0x27 # CHR 0x0A # rest"
    using a by (auto simp: dropWhile_append3)
  have "strip_prefix (open_prefix target) s = Some (marker @ CHR 0x27 # CHR 0x0A # rest)"
    using s by (simp add: strip_prefix_Some)
  then show "match_at target s = Some (marker, rest)"
    using a by (simp add: match_at_def Let_def tw dw)
qed

lemma has_opening_Cons:
  "has_opening target (c # cs) \<longleftrightarrow>
     (\<exists>m r. match_at target (c # cs) = Some (m, r)) \<or> has_opening target cs"
proof
  assume "has_opening target (c # cs)"
  then obtain pre marker post where d: "c # cs = pre @ opening_line target marker @ post"
    and v: "marker \<noteq> []" "CHR 0x27 \<notin> set marker"
    by (auto simp: has_opening_def)
  show "(\<exists>m r. match_at target (c # cs) = Some (m, r)) \<or> has_opening target cs"
  proof (cases pre)
    case Nil
    with d v have "match_at target (c # cs) = Some (marker, post)"
      by (simp add: match_at_iff)
    then show ?thesis by blast
  next
    case (Cons a pre')
    with d have "cs = pre' @ opening_line target marker @ post" by simp
    with v have "has_opening target cs" unfolding has_opening_def by blast
    then show ?thesis ..
  qed
next
  assume "(\<exists>m r. match_at target (c # cs) = Some (m, r)) \<or> has_opening target cs"
  then show "has_opening target (c # cs)"
  proof
    assume "\<exists>m r. match_at target (c # cs) = Some (m, r)"
    then obtain m r where "c # cs = [] @ opening_line target m @ r" "m \<noteq> []" "CHR 0x27 \<notin> set m"
      by (auto simp: match_at_iff)
    then show ?thesis unfolding has_opening_def by blast
  next
    assume "has_opening target cs"
    then obtain pre marker post where "cs = pre @ opening_line target marker @ post"
      "marker \<noteq> []" "CHR 0x27 \<notin> set marker"
      by (auto simp: has_opening_def)
    then have "c # cs = (c # pre) @ opening_line target marker @ post" by simp
    with \<open>marker \<noteq> []\<close> \<open>CHR 0x27 \<notin> set marker\<close> show ?thesis
      unfolding has_opening_def by blast
  qed
qed

lemma has_opening_Nil: "\<not> has_opening target []"
  by (auto simp: has_opening_def opening_line_def open_prefix_def)

lemma finditer_empty_iff: "finditer target s = [] \<longleftrightarrow> \<not> has_opening target s"
proof (induction target s rule: finditer.induct)
  case (1 target s)
  show ?case
  proof (cases "match_at target s")
    case (Some mr)
    obtain m r where mr: "mr = (m, r)" by (cases mr)
    from Some mr have "s = [] @ opening_line target m @ r \<and> m \<noteq> [] \<and> CHR 0x27 \<notin> set m"
      by (simp add: match_at_iff)
    then have "has_opening target s" unfolding has_opening_def by blast
    with Some mr show ?thesis by simp
  next
    case None
    show ?thesis
    proof (cases s)
      case Nil
      with None show ?thesis by (simp add: has_opening_Nil)
    next
      case (Cons c cs)
      with None "1.IH"(1) [OF None Cons] show ?thesis
        by (simp add: has_opening_Cons)
    qed
  qed
qed

lemma finditer_last:
  "finditer target s \<noteq> [] \<Longrightarrow> last (finditer target s) = (marker, rest) \<Longrightarrow>
     \<exists>pre. s = pre @ opening_line target marker @ rest
        \<and> marker \<noteq> [] \<and> CHR 0x27 \<notin> set marker \<and> finditer target rest = []"
proof (induction target s rule: finditer.induct)
  case (1 target s)
  show ?case
  proof (cases "match_at target s")
    case (Some mr)
    obtain m r where mr: "mr = (m, r)" by (cases mr)
    from Some mr have here: "s = opening_line target m @ r" "m \<noteq> []" "CHR 0x27 \<notin> set m"
      by (simp_all add: match_at_iff)
    show ?thesis
    proof (cases "finditer target r = []")
      case True
      with Some mr "1.prems" have "marker = m" "rest = r" by simp_all
      with here True have "s = [] @ opening_line target marker @ rest
        \<and> marker \<noteq> [] \<and> CHR 0x27 \<notin> set marker \<and> finditer target rest = []" by simp
      then show ?thesis by blast
    next
      case False
      with Some mr "1.prems" have "last (finditer target r) = (marker, rest)" by simp
      from "1.IH"(2) [OF Some mr [symmetric] False this]
      obtain pre where "r = pre @ opening_line target marker @ rest"
        "marker \<noteq> []" "CHR 0x27 \<notin> set marker" "finditer target rest = []" by blast
      with here have "s = (opening_line target m @ pre) @ opening_line target marker @ rest
        \<and> marker \<noteq> [] \<and> CHR 0x27 \<notin> set marker \<and> finditer target rest = []" by simp
      then show ?thesis by blast
    qed
  next
    case None
    show ?thesis
    proof (cases s)
      case Nil
      with None "1.prems" show ?thesis by simp
    next
      case (Cons c cs)
      with None "1.prems" have ne: "finditer target cs \<noteq> []"
        and l: "last (finditer target cs) = (marker, rest)" by simp_all
      from "1.IH"(1) [OF None Cons ne l]
      obtain pre where "cs = pre @ opening_line target marker @ rest"
        "marker \<noteq> []" "CHR 0x27 \<notin> set marker" "finditer target rest = []" by blast
      with Cons have "s = (c # pre) @ opening_line target marker @ rest
        \<and> marker \<noteq> [] \<and> CHR 0x27 \<notin> set marker \<and> finditer target rest = []" by simp
      then show ?thesis by blast
    qed
  qed
qed

declare finditer.simps [simp del]

lemma find_sub_Some:
  "find_sub tok s = Some k \<Longrightarrow>
     (\<exists>post. s = take k s @ tok @ post) \<and> k \<le> length s
     \<and> (\<forall>b p. s = b @ tok @ p \<longrightarrow> k \<le> length b)"
proof (induction s arbitrary: k)
  case Nil
  then show ?case by (auto split: if_splits)
next
  case (Cons c cs)
  show ?case
  proof (cases "prefix tok (c # cs)")
    case True
    with Cons.prems have "k = 0" by simp
    with True show ?thesis by (auto simp: prefix_def)
  next
    case False
    with Cons.prems obtain k' where k': "find_sub tok cs = Some k'" and k: "k = Suc k'"
      by auto
    from Cons.IH [OF k'] obtain post where p: "cs = take k' cs @ tok @ post"
      and le: "k' \<le> length cs" and least: "\<forall>b p. cs = b @ tok @ p \<longrightarrow> k' \<le> length b"
      by blast
    have "c # cs = take k (c # cs) @ tok @ post" using p k by simp
    moreover have "k \<le> length b" if "c # cs = b @ tok @ q" for b q
    proof (cases b)
      case Nil
      with that False show ?thesis by (simp add: prefix_def)
    next
      case (Cons a b')
      with that have "cs = b' @ tok @ q" by simp
      with least have "k' \<le> length b'" by blast
      with Cons k show ?thesis by simp
    qed
    ultimately show ?thesis using le k by auto
  qed
qed

lemma find_sub_None: "find_sub tok s = None \<Longrightarrow> \<not> (\<exists>b p. s = b @ tok @ p)"
proof (induction s)
  case Nil
  then show ?case by (auto split: if_splits)
next
  case (Cons c cs)
  then have np: "\<not> prefix tok (c # cs)" and n: "find_sub tok cs = None"
    by (auto split: if_splits)
  show ?case
  proof
    assume "\<exists>b p. c # cs = b @ tok @ p"
    then obtain b p where d: "c # cs = b @ tok @ p" by blast
    show False
    proof (cases b)
      case Nil
      with d np show False by (simp add: prefix_def)
    next
      case (Cons a b')
      with d have "cs = b' @ tok @ p" by simp
      with Cons.IH [OF n] show False by blast
    qed
  qed
qed

text \<open>
  Claim C2.  \<open>extract_last_heredoc\<close> returns \<open>None\<close> exactly when the text has no
  occurrence of the opening pattern.  Otherwise the occurrence it uses is one after whose
  opening line no further occurrence follows; when it returns a payload, that is the text
  between the end of that opening line and the first later newline-marker-newline, with a
  newline appended when the slice is non-empty and does not end in one; and it raises
  \<open>RuntimeError\<close> only when no newline-marker-newline follows that opening line.
\<close>

theorem extract_last_heredoc_spec:
  "(extract_last_heredoc src target = Inr None \<longleftrightarrow> \<not> has_opening target src)
   \<and> (\<forall>p. extract_last_heredoc src target = Inr (Some p) \<longrightarrow>
        (\<exists>pre marker body post.
            src = pre @ opening_line target marker @ body @ (CHR 0x0A # marker @ [CHR 0x0A]) @ post
          \<and> marker \<noteq> [] \<and> CHR 0x27 \<notin> set marker
          \<and> \<not> has_opening target (body @ (CHR 0x0A # marker @ [CHR 0x0A]) @ post)
          \<and> (\<forall>b q. body @ (CHR 0x0A # marker @ [CHR 0x0A]) @ post
                       = b @ (CHR 0x0A # marker @ [CHR 0x0A]) @ q \<longrightarrow> length body \<le> length b)
          \<and> p = (if body \<noteq> [] \<and> last body \<noteq> CHR 0x0A then body @ [CHR 0x0A] else body)))
   \<and> (\<forall>e. extract_last_heredoc src target = Inl e \<longrightarrow>
        (\<exists>pre marker rest.
            src = pre @ opening_line target marker @ rest
          \<and> marker \<noteq> [] \<and> CHR 0x27 \<notin> set marker
          \<and> \<not> has_opening target rest
          \<and> \<not> (\<exists>b q. rest = b @ (CHR 0x0A # marker @ [CHR 0x0A]) @ q)
          \<and> e = not_closed target marker))"
proof (cases "finditer target src = []")
  case True
  then have "extract_last_heredoc src target = Inr None"
    by (simp add: extract_last_heredoc_def)
  with True show ?thesis by (simp add: finditer_empty_iff)
next
  case False
  obtain marker rest where l: "last (finditer target src) = (marker, rest)"
    by (cases "last (finditer target src)")
  from finditer_last [OF False l] obtain pre where
    d: "src = pre @ opening_line target marker @ rest"
    and v: "marker \<noteq> []" "CHR 0x27 \<notin> set marker" and fin: "finditer target rest = []"
    by blast
  from fin have no: "\<not> has_opening target rest" by (simp add: finditer_empty_iff)
  from False have ho: "has_opening target src" by (simp add: finditer_empty_iff)
  let ?tok = "CHR 0x0A # marker @ [CHR 0x0A]"
  show ?thesis
  proof (cases "find_sub ?tok rest")
    case None
    with False l have r: "extract_last_heredoc src target = Inl (not_closed target marker)"
      by (simp add: extract_last_heredoc_def)
    from find_sub_None [OF None] have "\<not> (\<exists>b q. rest = b @ ?tok @ q)" .
    with d v no have "\<exists>pre marker' rest.
            src = pre @ opening_line target marker' @ rest
          \<and> marker' \<noteq> [] \<and> CHR 0x27 \<notin> set marker'
          \<and> \<not> has_opening target rest
          \<and> \<not> (\<exists>b q. rest = b @ (CHR 0x0A # marker' @ [CHR 0x0A]) @ q)
          \<and> not_closed target marker = not_closed target marker'"
      by blast
    with r ho show ?thesis by simp
  next
    case (Some k)
    let ?body = "take k rest"
    from Some False l
    have r: "extract_last_heredoc src target = Inr (Some (with_final_newline ?body))"
      by (simp add: extract_last_heredoc_def)
    from find_sub_Some [OF Some] obtain post where
      p: "rest = ?body @ ?tok @ post" and le: "k \<le> length rest"
      and least: "\<forall>b q. rest = b @ ?tok @ q \<longrightarrow> k \<le> length b"
      by blast
    have len: "length ?body = k" using le by simp
    have "src = pre @ opening_line target marker @ ?body @ ?tok @ post
          \<and> marker \<noteq> [] \<and> CHR 0x27 \<notin> set marker
          \<and> \<not> has_opening target (?body @ ?tok @ post)
          \<and> (\<forall>b q. ?body @ ?tok @ post = b @ ?tok @ q \<longrightarrow> length ?body \<le> length b)
          \<and> with_final_newline ?body
              = (if ?body \<noteq> [] \<and> last ?body \<noteq> CHR 0x0A then ?body @ [CHR 0x0A] else ?body)"
      using d v no least len p by (simp add: with_final_newline_def)
    then have "\<exists>pre marker body post.
            src = pre @ opening_line target marker @ body @ (CHR 0x0A # marker @ [CHR 0x0A]) @ post
          \<and> marker \<noteq> [] \<and> CHR 0x27 \<notin> set marker
          \<and> \<not> has_opening target (body @ (CHR 0x0A # marker @ [CHR 0x0A]) @ post)
          \<and> (\<forall>b q. body @ (CHR 0x0A # marker @ [CHR 0x0A]) @ post
                       = b @ (CHR 0x0A # marker @ [CHR 0x0A]) @ q \<longrightarrow> length body \<le> length b)
          \<and> with_final_newline ?body
              = (if body \<noteq> [] \<and> last body \<noteq> CHR 0x0A then body @ [CHR 0x0A] else body)"
      by blast
    with r ho show ?thesis by simp
  qed
qed

text \<open>Two heredocs for one target, a heredoc closed on its very first line, and no heredoc.\<close>

theorem extract_last_heredoc_spec_witness:
  "extract_last_heredoc two_heredocs ''T'' = Inr (Some (''two'' @ [CHR 0x0A]))
   \<and> (\<exists>pre marker body post.
         two_heredocs = pre @ opening_line ''T'' marker @ body @ (CHR 0x0A # marker @ [CHR 0x0A]) @ post
       \<and> \<not> has_opening ''T'' (body @ (CHR 0x0A # marker @ [CHR 0x0A]) @ post)
       \<and> ''two'' @ [CHR 0x0A] = (if body \<noteq> [] \<and> last body \<noteq> CHR 0x0A then body @ [CHR 0x0A] else body))
   \<and> extract_last_heredoc ''echo nothing here'' ''T'' = Inr None
   \<and> \<not> has_opening ''T'' ''echo nothing here''
   \<and> extract_last_heredoc unclosed_heredoc ''T'' = Inl (not_closed ''T'' ''PY'')
   \<and> (\<exists>pre marker rest. unclosed_heredoc = pre @ opening_line ''T'' marker @ rest
         \<and> \<not> (\<exists>b q. rest = b @ (CHR 0x0A # marker @ [CHR 0x0A]) @ q))"
proof -
  have e1: "extract_last_heredoc two_heredocs ''T'' = Inr (Some (''two'' @ [CHR 0x0A]))"
    by code_simp
  have e2: "extract_last_heredoc unclosed_heredoc ''T'' = Inl (not_closed ''T'' ''PY'')"
    by code_simp
  have e3: "extract_last_heredoc ''echo nothing here'' ''T'' = Inr None"
    by code_simp
  from extract_last_heredoc_spec [of two_heredocs "''T''"] e1
  have a: "\<exists>pre marker body post.
         two_heredocs = pre @ opening_line ''T'' marker @ body @ (CHR 0x0A # marker @ [CHR 0x0A]) @ post
       \<and> \<not> has_opening ''T'' (body @ (CHR 0x0A # marker @ [CHR 0x0A]) @ post)
       \<and> ''two'' @ [CHR 0x0A] = (if body \<noteq> [] \<and> last body \<noteq> CHR 0x0A then body @ [CHR 0x0A] else body)"
    by blast
  from extract_last_heredoc_spec [of "''echo nothing here''" "''T''"] e3
  have b: "\<not> has_opening ''T'' ''echo nothing here''"
    by blast
  from extract_last_heredoc_spec [of unclosed_heredoc "''T''"] e2
  have c: "\<exists>pre marker rest. unclosed_heredoc = pre @ opening_line ''T'' marker @ rest
         \<and> \<not> (\<exists>b q. rest = b @ (CHR 0x0A # marker @ [CHR 0x0A]) @ q)"
    by blast
  from e1 e2 e3 a b c show ?thesis by blast
qed

lemma dict_set_fresh: "k \<notin> fst ` set kvs \<Longrightarrow> dict_set k v kvs = kvs @ [(k, v)]"
  by (induction kvs) auto

lemma extract_loop_ok:
  assumes "\<forall>x \<in> set ts. \<exists>b. extract_last_heredoc text (fst x) = Inr b"
    and "map fst (extracted st) = map fst (written st)"
    and "distinct (map fst (written st) @ map (\<lambda>x. fst (snd x)) ts)"
  shows "\<exists>st'. extract_loop text ts st = (st', None)
     \<and> written st' = written st @ found_files text ts
     \<and> missing_required st' = missing_required st @ missing_targets text ts
     \<and> map fst (extracted st') = map fst (written st')"
  using assms
proof (induction ts arbitrary: st)
  case Nil
  then show ?case by (simp add: found_files_def missing_targets_def)
next
  case (Cons x ts)
  obtain bash_target out_name required where x: "x = (bash_target, out_name, required)"
    by (cases x)
  from Cons.prems(1) x obtain b where b: "extract_last_heredoc text bash_target = Inr b"
    by auto
  from Cons.prems(1) have rest: "\<forall>x \<in> set ts. \<exists>b. extract_last_heredoc text (fst x) = Inr b"
    by simp
  show ?case
  proof (cases b)
    case None
    let ?st = "if required then st \<lparr> missing_required := missing_required st @ [bash_target] \<rparr> else st"
    have inv: "map fst (extracted ?st) = map fst (written ?st)"
      "distinct (map fst (written ?st) @ map (\<lambda>x. fst (snd x)) ts)"
      using Cons.prems(2,3) by auto
    from Cons.IH [OF rest inv] obtain st' where
      "extract_loop text ts ?st = (st', None)"
      "written st' = written ?st @ found_files text ts"
      "missing_required st' = missing_required ?st @ missing_targets text ts"
      "map fst (extracted st') = map fst (written st')" by blast
    with b None x show ?thesis
      by (auto simp: found_files_def missing_targets_def)
  next
    case (Some block)
    let ?st = "st \<lparr> written := written st @ [(out_name, block)],
                  extracted := dict_set out_name
                    \<lparr> source_target = bash_target, size_chars = length block,
                      lines_count = count_newlines block \<rparr> (extracted st) \<rparr>"
    have fresh: "out_name \<notin> fst ` set (extracted st)"
    proof -
      have "fst ` set (extracted st) = set (map fst (extracted st))" by simp
      also have "\<dots> = set (map fst (written st))" using Cons.prems(2) by simp
      finally show ?thesis using Cons.prems(3) x by auto
    qed
    have inv: "map fst (extracted ?st) = map fst (written ?st)"
      "distinct (map fst (written ?st) @ map (\<lambda>x. fst (snd x)) ts)"
      using Cons.prems(2,3) x by (auto simp: dict_set_fresh [OF fresh])
    from Cons.IH [OF rest inv] obtain st' where
      "extract_loop text ts ?st = (st', None)"
      "written st' = written ?st @ found_files text ts"
      "missing_required st' = missing_required ?st @ missing_targets text ts"
      "map fst (extracted st') = map fst (written st')" by blast
    with b Some x show ?thesis
      by (auto simp: found_files_def missing_targets_def)
  qed
qed

lemma extract_loop_raise:
  assumes "\<exists>x \<in> set ts. \<exists>e. extract_last_heredoc text (fst x) = Inl e"
  shows "\<exists>st' e. extract_loop text ts st = (st', Some e)"
  using assms
proof (induction ts arbitrary: st)
  case Nil
  then show ?case by simp
next
  case (Cons x ts)
  obtain bash_target out_name required where x: "x = (bash_target, out_name, required)"
    by (cases x)
  show ?case
  proof (cases "extract_last_heredoc text bash_target")
    case (Inl e)
    with x show ?thesis by simp
  next
    case (Inr b)
    with Cons.prems x have "\<exists>x \<in> set ts. \<exists>e. extract_last_heredoc text (fst x) = Inl e"
      by auto
    from Cons.IH [OF this] Inr x show ?thesis
      by (cases b) auto
  qed
qed

lemma targets_distinct: "distinct (map (\<lambda>x. fst (snd x)) TARGETS)"
  by (simp add: TARGETS_def)


lemma not_isl_iff: "\<not> isl x \<longleftrightarrow> (\<exists>b. x = Inr b)"
  by (cases x) auto

lemma missing_targets_ne:
  "missing_targets text ts \<noteq> [] \<longleftrightarrow>
     (\<exists>x \<in> set ts. snd (snd x) \<and> extract_last_heredoc text (fst x) = Inr None)"
  by (induction ts) (auto simp: missing_targets_def)

text \<open>
  Claim C5, as amended.  \<open>main\<close> exits with 2 when the source file does not exist.
  Otherwise, provided no target's last opening line is left unclosed, it writes one file per
  target of the fixed list whose heredoc is found, exits with 3 (writing no manifest) when a
  required target has no heredoc, and otherwise exits with 0 after writing a manifest whose
  \<open>count\<close> is the number of files written.  When some target's last opening line is left
  unclosed, the \<open>RuntimeError\<close> of \<open>extract_last_heredoc\<close> ends \<open>main\<close> and no manifest
  is written.
\<close>

theorem main_exit_codes:
  "exit_code (main src None) = Inr 2 \<and> files (main src None) = []
   \<and> manifest_json (main src None) = None
   \<and> ((\<forall>x \<in> set TARGETS. \<not> isl (extract_last_heredoc text (fst x))) \<longrightarrow>
        files (main src (Some text)) = found_files text TARGETS
      \<and> ((\<exists>x \<in> set TARGETS. snd (snd x) \<and> extract_last_heredoc text (fst x) = Inr None) \<longrightarrow>
            exit_code (main src (Some text)) = Inr 3
          \<and> manifest_json (main src (Some text)) = None)
      \<and> (\<not> (\<exists>x \<in> set TARGETS. snd (snd x) \<and> extract_last_heredoc text (fst x) = Inr None) \<longrightarrow>
            exit_code (main src (Some text)) = Inr 0
          \<and> (\<exists>m. manifest_json (main src (Some text)) = Some m
                \<and> m_source m = src
                \<and> m_count m = length (files (main src (Some text)))
                \<and> map fst (m_files m) = map fst (files (main src (Some text))))))
   \<and> ((\<exists>x \<in> set TARGETS. isl (extract_last_heredoc text (fst x))) \<longrightarrow>
        isl (exit_code (main src (Some text)))
      \<and> manifest_json (main src (Some text)) = None)"
proof (intro conjI impI)
  let ?st0 = "\<lparr> written = [], extracted = [], missing_required = [] \<rparr>"
  show "exit_code (main src None) = Inr 2" "files (main src None) = []"
    "manifest_json (main src None) = None"
    by (simp_all add: main_def)
  {
    assume ok: "\<forall>x \<in> set TARGETS. \<not> isl (extract_last_heredoc text (fst x))"
    then have ok': "\<forall>x \<in> set TARGETS. \<exists>b. extract_last_heredoc text (fst x) = Inr b"
      by (simp add: not_isl_iff)
    have "\<exists>st'. extract_loop text TARGETS ?st0 = (st', None)
       \<and> written st' = written ?st0 @ found_files text TARGETS
       \<and> missing_required st' = missing_required ?st0 @ missing_targets text TARGETS
       \<and> map fst (extracted st') = map fst (written st')"
      by (rule extract_loop_ok [OF ok']) (simp_all add: targets_distinct)
    then obtain st' where loop: "extract_loop text TARGETS ?st0 = (st', None)"
      and w: "written st' = found_files text TARGETS"
      and mi: "missing_required st' = missing_targets text TARGETS"
      and ex: "map fst (extracted st') = map fst (written st')"
      by auto
    from loop w show "files (main src (Some text)) = found_files text TARGETS"
      by (simp add: main_def)
    {
      assume "\<exists>x \<in> set TARGETS. snd (snd x) \<and> extract_last_heredoc text (fst x) = Inr None"
      then have "missing_required st' \<noteq> []" by (simp add: mi missing_targets_ne)
      with loop show "exit_code (main src (Some text)) = Inr 3"
        "manifest_json (main src (Some text)) = None"
        by (simp_all add: main_def)
    }
    {
      assume n: "\<not> (\<exists>x \<in> set TARGETS. snd (snd x) \<and> extract_last_heredoc text (fst x) = Inr None)"
      have "missing_targets text TARGETS = []"
      proof (rule ccontr)
        assume "missing_targets text TARGETS \<noteq> []"
        then have "\<exists>x \<in> set TARGETS. snd (snd x) \<and> extract_last_heredoc text (fst x) = Inr None"
          by (simp only: missing_targets_ne)
        with n show False ..
      qed
      then have e: "missing_required st' = []" by (simp add: mi)
      with loop show "exit_code (main src (Some text)) = Inr 0"
        by (simp add: main_def)
      have "length (extracted st') = length (written st')"
        using ex by (metis length_map)
      with loop e ex show "\<exists>m. manifest_json (main src (Some text)) = Some m
                \<and> m_source m = src
                \<and> m_count m = length (files (main src (Some text)))
                \<and> map fst (m_files m) = map fst (files (main src (Some text)))"
        by (simp add: main_def)
    }
  }
  {
    assume "\<exists>x \<in> set TARGETS. isl (extract_last_heredoc text (fst x))"
    then have "\<exists>x \<in> set TARGETS. \<exists>e. extract_last_heredoc text (fst x) = Inl e"
      by (metis isl_def)
    from extract_loop_raise [OF this, of ?st0]
    obtain st' e where "extract_loop text TARGETS ?st0 = (st', Some e)" by blast
    then show "isl (exit_code (main src (Some text)))"
      "manifest_json (main src (Some text)) = None"
      by (simp_all add: main_def)
  }
qed

text \<open>
  Claim C5 as stated fails: the source exists, a required target has no heredoc, and yet the
  run ends neither with 3 nor with 0 but with the uncaught \<open>RuntimeError\<close> of the first
  target, whose heredoc is never closed.
\<close>

theorem main_unclosed_heredoc_raises:
  "exit_code (main ''/src/xui11.sh.fixed.sh'' (Some unclosed_first_target))
     = Inl (not_closed ''$DASH_DIR/pyqt_dashboard_improved.py'' ''XUI_HEREDOC_4'')
   \<and> extract_last_heredoc unclosed_first_target ''$BIN_DIR/xui_webhub.py'' = Inr None
   \<and> exit_code (main ''/src/xui11.sh.fixed.sh'' (Some unclosed_first_target)) \<noteq> Inr 3
   \<and> exit_code (main ''/src/xui11.sh.fixed.sh'' (Some unclosed_first_target)) \<noteq> Inr 0"
  by code_simp

text \<open>No source file; all required targets present; one target only; an unclosed heredoc.\<close>

theorem main_exit_codes_witness:
  "exit_code (main ''/src/xui11.sh.fixed.sh'' None) = Inr 2
   \<and> list_all (\<lambda>x. \<not> isl (extract_last_heredoc all_required (fst x))) TARGETS
   \<and> exit_code (main ''/src/xui11.sh.fixed.sh'' (Some all_required)) = Inr 0
   \<and> (\<exists>m. manifest_json (main ''/src/xui11.sh.fixed.sh'' (Some all_required)) = Some m
         \<and> m_count m = 5)
   \<and> exit_code (main ''/src/xui11.sh.fixed.sh'' (Some one_target_only)) = Inr 3
   \<and> manifest_json (main ''/src/xui11.sh.fixed.sh'' (Some one_target_only)) = None
   \<and> isl (exit_code (main ''/src/xui11.sh.fixed.sh'' (Some unclosed_first_target)))"
proof -
  let ?src = "''/src/xui11.sh.fixed.sh''"
  have a1: "\<forall>x \<in> set TARGETS. \<not> isl (extract_last_heredoc all_required (fst x))"
    by code_simp
  have a2: "\<not> (\<exists>x \<in> set TARGETS. snd (snd x) \<and> extract_last_heredoc all_required (fst x) = Inr None)"
    by code_simp
  have a3: "length (found_files all_required TARGETS) = 5"
    by code_simp
  have b1: "\<forall>x \<in> set TARGETS. \<not> isl (extract_last_heredoc one_target_only (fst x))"
    by code_simp
  have b2: "\<exists>x \<in> set TARGETS. snd (snd x) \<and> extract_last_heredoc one_target_only (fst x) = Inr None"
    by code_simp
  have c1: "\<exists>x \<in> set TARGETS. isl (extract_last_heredoc unclosed_first_target (fst x))"
    by code_simp
  note A = main_exit_codes [of ?src all_required]
  note B = main_exit_codes [of ?src one_target_only]
  note C = main_exit_codes [of ?src unclosed_first_target]
  from A a1 a2 have "exit_code (main ?src None) = Inr 2"
    "exit_code (main ?src (Some all_required)) = Inr 0"
    "files (main ?src (Some all_required)) = found_files all_required TARGETS"
    "\<exists>m. manifest_json (main ?src (Some all_required)) = Some m
         \<and> m_count m = length (files (main ?src (Some all_required)))"
    by blast+
  moreover from B b1 b2 have "exit_code (main ?src (Some one_target_only)) = Inr 3"
    "manifest_json (main ?src (Some one_target_only)) = None"
    by blast+
  moreover from C c1 have "isl (exit_code (main ?src (Some unclosed_first_target)))"
    by blast
  ultimately show ?thesis using a1 a3 by (auto simp: list_all_iff)
qed

section \<open>Facts about the dedent step\<close>

lemma py_min_le: "x \<in> set xs \<Longrightarrow> py_min xs \<le> x"
proof -
  have f: "foldl min a ys \<le> a \<and> (\<forall>y \<in> set ys. foldl min a ys \<le> y)" for a :: nat and ys
  proof (induction ys arbitrary: a)
    case Nil
    show ?case by simp
  next
    case (Cons y ys)
    from Cons [of "min a y"] show ?case by (auto simp: min_def split: if_splits)
  qed
  assume "x \<in> set xs"
  then show ?thesis using f by (cases xs) auto
qed

lemma py_min_in: "xs \<noteq> [] \<Longrightarrow> py_min xs \<in> set xs"
proof -
  have f: "foldl min a ys \<in> insert a (set ys)" for a :: nat and ys
  proof (induction ys arbitrary: a)
    case Nil
    show ?case by simp
  next
    case (Cons y ys)
    from Cons [of "min a y"] show ?case by (auto simp: min_def split: if_splits)
  qed
  assume "xs \<noteq> []"
  then show ?thesis using f by (cases xs) auto
qed

lemma dropWhile_take_Nil: "takeWhile P (dropWhile P xs) = []"
proof (cases "dropWhile P xs")
  case Nil
  show ?thesis unfolding Nil by simp
next
  case (Cons a as)
  with hd_dropWhile [of P xs] have "\<not> P a" by simp
  then show ?thesis unfolding Cons by simp
qed

lemma strip_empty_iff: "py_strip l = [] \<longleftrightarrow> (\<forall>c \<in> set l. py_isspace c)"
proof -
  have "py_strip l = [] \<longleftrightarrow> (\<forall>x \<in> set (dropWhile py_isspace l). py_isspace x)"
    by (simp add: py_strip_def dropWhile_eq_Nil_conv)
  also have "\<dots> \<longleftrightarrow> dropWhile py_isspace l = []"
  proof (cases "dropWhile py_isspace l")
    case Nil
    show ?thesis unfolding Nil by simp
  next
    case (Cons a as)
    with hd_dropWhile [of py_isspace l] have "\<not> py_isspace a" by simp
    then show ?thesis unfolding Cons by auto
  qed
  also have "\<dots> \<longleftrightarrow> (\<forall>c \<in> set l. py_isspace c)"
    by (simp add: dropWhile_eq_Nil_conv)
  finally show ?thesis .
qed

lemma min_indent_le:
  "l \<in> set lns \<Longrightarrow> py_strip l \<noteq> [] \<Longrightarrow> min_indent lns \<le> leading_ws l"
  by (auto simp: min_indent_def indents_def intro!: py_min_le)

lemma min_indent_attained:
  "\<exists>l \<in> set lns. py_strip l \<noteq> [] \<Longrightarrow>
     \<exists>l \<in> set lns. py_strip l \<noteq> [] \<and> leading_ws l = min_indent lns"
proof -
  assume "\<exists>l \<in> set lns. py_strip l \<noteq> []"
  then have ne: "indents lns \<noteq> []" by (auto simp: indents_def filter_empty_conv)
  from py_min_in [OF ne] ne show ?thesis
    by (auto simp: min_indent_def indents_def)
qed

lemma min_indent_all_blank: "\<forall>l \<in> set lns. py_strip l = [] \<Longrightarrow> min_indent lns = 0"
  by (simp add: min_indent_def indents_def filter_empty_conv)

lemma cut_indent_drop: "cut_indent m l = drop m l"
  by (simp add: cut_indent_def)

lemma dedent_lines_map: "dedent_lines lns = map (drop (min_indent lns)) lns"
  by (simp add: dedent_lines_def Let_def cut_indent_drop)

lemma leading_ws_le: "leading_ws l \<le> length l"
  by (simp add: leading_ws_def length_takeWhile_le)

lemma take_within_ws:
  assumes "m \<le> leading_ws l"
  shows "take m l = take m (takeWhile py_isspace l)"
    and "drop m l = drop m (takeWhile py_isspace l) @ dropWhile py_isspace l"
proof -
  let ?t = "takeWhile py_isspace l" and ?d = "dropWhile py_isspace l"
  have m: "m \<le> length ?t" using assms by (simp add: leading_ws_def)
  have "take m (?t @ ?d) = take m ?t" using m by (simp del: takeWhile_dropWhile_id)
  then show "take m l = take m ?t" by simp
  have "drop m (?t @ ?d) = drop m ?t @ ?d" using m by (simp del: takeWhile_dropWhile_id)
  then show "drop m l = drop m ?t @ ?d" by simp
qed

lemma take_indent_ws: "m \<le> leading_ws l \<Longrightarrow> \<forall>c \<in> set (take m l). py_isspace c"
proof
  fix c assume m: "m \<le> leading_ws l" and c: "c \<in> set (take m l)"
  from c take_within_ws(1) [OF m] have "c \<in> set (takeWhile py_isspace l)"
    by (auto dest: in_set_takeD)
  then show "py_isspace c" by (rule set_takeWhileD [THEN conjunct2])
qed

lemma leading_ws_drop: "m \<le> leading_ws l \<Longrightarrow> leading_ws (drop m l) = leading_ws l - m"
proof -
  assume m: "m \<le> leading_ws l"
  let ?t = "takeWhile py_isspace l" and ?d = "dropWhile py_isspace l"
  have a: "\<forall>c \<in> set (drop m ?t). py_isspace c"
    by (auto dest!: in_set_dropD set_takeWhileD)
  have "takeWhile py_isspace (drop m ?t @ ?d) = drop m ?t"
    using a by (simp add: takeWhile_append2 dropWhile_take_Nil)
  with take_within_ws(2) [OF m] show ?thesis by (simp add: leading_ws_def)
qed

lemma lstrip_join:
  "\<forall>l \<in> set xs. CHR 0x0A \<notin> set l \<Longrightarrow>
     dropWhile (\<lambda>c. c = CHR 0x0A) (join [CHR 0x0A] xs) = join [CHR 0x0A] (dropWhile (\<lambda>l. l = []) xs)"
proof (induction xs rule: induct_list012)
  case 1
  show ?case by simp
next
  case (2 x)
  then show ?case by (cases x) auto
next
  case (3 x y zs)
  show ?case
  proof (cases x)
    case Nil
    with 3 show ?thesis by simp
  next
    case (Cons a as)
    with "3.prems" have "a \<noteq> CHR 0x0A" by auto
    with Cons show ?thesis by simp
  qed
qed

lemma splitlines_from_no_nl:
  "CHR 0x0A \<notin> set cur \<Longrightarrow> \<forall>l \<in> set (splitlines_from cur s). CHR 0x0A \<notin> set l"
proof (induction cur s rule: splitlines_from.induct)
  case (1 cur)
  then show ?case by simp
next
  case (2 cur c cs)
  show ?case
  proof (cases "c = CHR 0x0D")
    case True
    show ?thesis
    proof (cases cs)
      case Nil
      with True "2.prems" show ?thesis by simp
    next
      case (Cons d ds)
      show ?thesis
      proof (cases "d = CHR 0x0A")
        case dn: True
        from "2.IH"(1) [OF True Cons dn] have "\<forall>l \<in> set (splitlines_from [] ds). CHR 0x0A \<notin> set l"
          by simp
        with True Cons dn "2.prems" show ?thesis by simp
      next
        case dn: False
        from "2.IH"(2) [OF True Cons dn] have "\<forall>l \<in> set (splitlines_from [] (d # ds)). CHR 0x0A \<notin> set l"
          by simp
        with True Cons dn "2.prems" show ?thesis by simp
      qed
    qed
  next
    case False
    show ?thesis
    proof (cases "py_linebreak c")
      case True
      from "2.IH"(3) [OF False True] have "\<forall>l \<in> set (splitlines_from [] cs). CHR 0x0A \<notin> set l"
        by simp
      with False True "2.prems" show ?thesis by simp
    next
      case nb: False
      then have "c \<noteq> CHR 0x0A" by (auto simp: py_linebreak_def)
      with "2.prems" have "CHR 0x0A \<notin> set (cur @ [c])" by simp
      from "2.IH"(4) [OF False nb this] False nb show ?thesis by simp
    qed
  qed
qed

lemma splitlines_no_nl: "\<forall>l \<in> set (py_splitlines s). CHR 0x0A \<notin> set l"
  unfolding py_splitlines_def by (rule splitlines_from_no_nl) simp

text \<open>
  Claim C9.  \<open>min_indent\<close> is the least leading-white-space length over the non-blank lines
  (0 when there is none); every line is mapped to itself without its first \<open>min_indent\<close>
  characters (to the empty line when it is shorter), so each output line is a suffix of its
  input line; for a non-blank line exactly \<open>min_indent\<close> white-space characters are removed,
  its indentation decreases by \<open>min_indent\<close> and the rest of the line is unchanged.
  \<open>extract_dashboard.py\<close> then drops only leading empty lines; \<open>fix_heredoc_dedent.py\<close>
  applies the step to the lines of \<open>textwrap.dedent(block)\<close> and at most appends a newline.
\<close>

theorem dedent_step_spec:
  "(\<forall>l \<in> set lns. py_strip l \<noteq> [] \<longrightarrow> min_indent lns \<le> leading_ws l)
   \<and> ((\<exists>l \<in> set lns. py_strip l \<noteq> []) \<longrightarrow>
        (\<exists>l \<in> set lns. py_strip l \<noteq> [] \<and> leading_ws l = min_indent lns))
   \<and> ((\<forall>l \<in> set lns. py_strip l = []) \<longrightarrow> min_indent lns = 0)
   \<and> length (dedent_lines lns) = length lns
   \<and> (\<forall>i < length lns.
        dedent_lines lns ! i =
          (if min_indent lns \<le> length (lns ! i) then drop (min_indent lns) (lns ! i) else [])
      \<and> suffix (dedent_lines lns ! i) (lns ! i)
      \<and> (py_strip (lns ! i) \<noteq> [] \<longrightarrow>
            lns ! i = take (min_indent lns) (lns ! i) @ dedent_lines lns ! i
          \<and> length (take (min_indent lns) (lns ! i)) = min_indent lns
          \<and> (\<forall>c \<in> set (take (min_indent lns) (lns ! i)). py_isspace c)
          \<and> leading_ws (dedent_lines lns ! i) + min_indent lns = leading_ws (lns ! i)
          \<and> py_strip (dedent_lines lns ! i) \<noteq> []))
   \<and> extract_dashboard_dedent block =
        join [CHR 0x0A] (dropWhile (\<lambda>l. l = []) (dedent_lines (py_splitlines block)))
   \<and> (fix_heredoc_dedent tw block = join [CHR 0x0A] (dedent_lines (py_splitlines (tw block)))
       \<or> fix_heredoc_dedent tw block
            = join [CHR 0x0A] (dedent_lines (py_splitlines (tw block))) @ [CHR 0x0A])"
proof -
  let ?m = "min_indent lns"
  have per_line: "dedent_lines lns ! i = (if ?m \<le> length (lns ! i) then drop ?m (lns ! i) else [])
      \<and> suffix (dedent_lines lns ! i) (lns ! i)
      \<and> (py_strip (lns ! i) \<noteq> [] \<longrightarrow>
            lns ! i = take ?m (lns ! i) @ dedent_lines lns ! i
          \<and> length (take ?m (lns ! i)) = ?m
          \<and> (\<forall>c \<in> set (take ?m (lns ! i)). py_isspace c)
          \<and> leading_ws (dedent_lines lns ! i) + ?m = leading_ws (lns ! i)
          \<and> py_strip (dedent_lines lns ! i) \<noteq> [])" if i: "i < length lns" for i
  proof -
    let ?l = "lns ! i"
    have out: "dedent_lines lns ! i = drop ?m ?l" using i by (simp add: dedent_lines_map)
    have a: "dedent_lines lns ! i = (if ?m \<le> length ?l then drop ?m ?l else [])"
      by (simp add: out)
    have b: "suffix (dedent_lines lns ! i) ?l" unfolding out by (rule suffix_drop)
    have c: "?l = take ?m ?l @ dedent_lines lns ! i
          \<and> length (take ?m ?l) = ?m
          \<and> (\<forall>c \<in> set (take ?m ?l). py_isspace c)
          \<and> leading_ws (dedent_lines lns ! i) + ?m = leading_ws ?l
          \<and> py_strip (dedent_lines lns ! i) \<noteq> []" if nb: "py_strip ?l \<noteq> []"
    proof -
      from i have mem: "?l \<in> set lns" by simp
      from min_indent_le [OF mem nb] have le: "?m \<le> leading_ws ?l" .
      with leading_ws_le [of ?l] have len: "?m \<le> length ?l" by simp
      from nb obtain x where x: "x \<in> set ?l" "\<not> py_isspace x"
        by (auto simp: strip_empty_iff)
      have "x \<in> set (drop ?m ?l)"
      proof -
        from x(1) have "x \<in> set (take ?m ?l) \<or> x \<in> set (drop ?m ?l)"
          by (metis Un_iff append_take_drop_id set_append)
        with take_indent_ws [OF le] x(2) show ?thesis by blast
      qed
      with x(2) have "py_strip (drop ?m ?l) \<noteq> []" by (auto simp: strip_empty_iff)
      with len take_indent_ws [OF le] leading_ws_drop [OF le] le show ?thesis
        by (simp add: out)
    qed
    from a b c show ?thesis by blast
  qed
  have nonl: "\<forall>l \<in> set (dedent_lines (py_splitlines block)). CHR 0x0A \<notin> set l"
    using splitlines_no_nl [of block]
    by (auto simp: dedent_lines_map dest: in_set_dropD)
  have ed: "extract_dashboard_dedent block =
        join [CHR 0x0A] (dropWhile (\<lambda>l. l = []) (dedent_lines (py_splitlines block)))"
  proof -
    let ?d = "join [CHR 0x0A] (dedent_lines (py_splitlines block))"
    have "extract_dashboard_dedent block = dropWhile (\<lambda>c. c = CHR 0x0A) ?d"
      by (cases ?d) (simp_all add: extract_dashboard_dedent_def Let_def)
    with lstrip_join [OF nonl] show ?thesis by simp
  qed
  have fd: "fix_heredoc_dedent tw block = join [CHR 0x0A] (dedent_lines (py_splitlines (tw block)))
       \<or> fix_heredoc_dedent tw block
            = join [CHR 0x0A] (dedent_lines (py_splitlines (tw block))) @ [CHR 0x0A]"
    by (simp add: fix_heredoc_dedent_def Let_def)
  show ?thesis
    using min_indent_le [of _ lns] min_indent_attained [of lns] min_indent_all_blank [of lns]
      per_line ed fd
    by (simp add: dedent_lines_map)
qed

text \<open>A block indented by four columns.\<close>

theorem dedent_step_spec_witness:
  "min_indent (py_splitlines indented_block) = 4
   \<and> dedent_lines (py_splitlines indented_block)
       = [[], ''import sys'', [], ''def f():'', ''    return 1'']
   \<and> (1::nat) < length (py_splitlines indented_block)
   \<and> py_strip (py_splitlines indented_block ! 1) \<noteq> []
   \<and> py_splitlines indented_block ! 1
       = take 4 (py_splitlines indented_block ! 1) @ dedent_lines (py_splitlines indented_block) ! 1
   \<and> leading_ws (dedent_lines (py_splitlines indented_block) ! 1) + 4
       = leading_ws (py_splitlines indented_block ! 1)
   \<and> extract_dashboard_dedent indented_block
       = join [CHR 0x0A] [''import sys'', [], ''def f():'', ''    return 1'']"
proof -
  let ?lns = "py_splitlines indented_block"
  have m: "min_indent ?lns = 4" by code_simp
  have d: "dedent_lines ?lns = [[], ''import sys'', [], ''def f():'', ''    return 1'']"
    by code_simp
  have i: "(1::nat) < length ?lns" by code_simp
  have nb: "py_strip (?lns ! 1) \<noteq> []" by code_simp
  from dedent_step_spec [of ?lns indented_block id] i nb
  have "?lns ! 1 = take (min_indent ?lns) (?lns ! 1) @ dedent_lines ?lns ! 1"
    "leading_ws (dedent_lines ?lns ! 1) + min_indent ?lns = leading_ws (?lns ! 1)"
    "extract_dashboard_dedent indented_block
       = join [CHR 0x0A] (dropWhile (\<lambda>l. l = []) (dedent_lines ?lns))"
    by blast+
  with m d i nb show ?thesis by simp
qed

section \<open>Facts about the classes\<close>

text \<open>The bindings in force in the three classes, and their base classes.\<close>

lemma class_facts:
  "class_attr linux_GamepadListener ''__init__'' = Some (Def ''__init__'' 288 [''parent''] DialogInit)"
  "class_attr linux_GamepadListener ''setWindowTitle'' = None"
  "class_attr linux_GamepadListener ''spin'' = Some (Def ''spin'' 342 [] Method)"
  "class_attr linux_GamepadListener ''_resolve'' = Some (Def ''_resolve'' 356 [] Method)"
  "class_attr linux_SlotMachineDialog ''__init__'' = None"
  "class_attr linux_SlotMachineDialog ''spin'' = None"
  "class_attr linux_SlotMachineDialog ''_resolve'' = None"
  "class_attr linux_SlotMachineDialog ''exec_'' = None"
  "class_attr win_SlotMachineDialog ''__init__'' = Some (Def ''__init__'' 26 [''parent''] DialogInit)"
  "class_attr win_SlotMachineDialog ''spin'' = Some (Def ''spin'' 79 [] Method)"
  "class_attr win_SlotMachineDialog ''_resolve'' = Some (Def ''_resolve'' 93 [] Method)"
  "class_attr win_SlotMachineDialog ''setWindowTitle'' = None"
  "class_attr win_SlotMachineDialog ''setModal'' = None"
  "class_attr win_SlotMachineDialog ''exec_'' = None"
  by (simp_all add: class_attr_def linux_GamepadListener_def linux_SlotMachineDialog_def
      win_SlotMachineDialog_def)

lemma base_facts:
  "cls_base linux_GamepadListener = QObject"
  "cls_base linux_SlotMachineDialog = QDialog"
  "cls_base win_SlotMachineDialog = QDialog"
  by (simp_all add: linux_GamepadListener_def linux_SlotMachineDialog_def win_SlotMachineDialog_def)

text \<open>
  No call of \<open>GamepadListener\<close> of the Linux file returns: with more than one argument the
  \<open>__init__\<close> in force (line 288) refuses the call, and with at most one its second statement
  asks a \<open>QObject\<close> for \<open>setWindowTitle\<close>.
\<close>

lemma gamepad_listener_never_constructed:
  "construct linux_GamepadListener n env =
     Inl (if n > 1 then too_many_arguments linux_GamepadListener 1 n
          else no_attribute linux_GamepadListener ''setWindowTitle'')"
  by (simp add: construct_def bind_init_def class_facts base_facts dialog_init_def instance_attr_def
      qt_defines_def)

text \<open>
  The Casino tile of the Linux file opens a dialog that Qt alone has set up; the one of the
  Windows file opens a slot dialog with its fields.
\<close>

lemma linux_casino_is_bare: "open_casino linux_SlotMachineDialog env = Inr QtOnly"
  by (simp add: open_casino_def construct_def bind_init_def class_facts base_facts instance_attr_def
      qt_defines_def)

lemma win_casino_is_slot_dialog:
  "open_casino win_SlotMachineDialog env
     = Inr (Dialog \<lparr> credits = env_credits env, sounds = env_sounds env, reels = ([], [], []),
                      timers = (None, None, None) \<rparr>)"
  by (simp add: open_casino_def construct_def bind_init_def class_facts base_facts instance_attr_def
      qt_defines_def dialog_init_def)

section \<open>Facts about the slot machine\<close>

lemma payout_cases:
  "a = b \<and> b = c \<Longrightarrow> a = ''7'' \<Longrightarrow> payout (a, b, c) = 200"
  "a = b \<and> b = c \<Longrightarrow> a \<noteq> ''7'' \<Longrightarrow> payout (a, b, c) = 50"
  "\<not> (a = b \<and> b = c) \<Longrightarrow> a = b \<or> b = c \<or> a = c \<Longrightarrow> payout (a, b, c) = 20"
  "\<not> (a = b \<and> b = c) \<Longrightarrow> \<not> (a = b \<or> b = c \<or> a = c) \<Longrightarrow> payout (a, b, c) = 0"
proof -
  show "a = b \<and> b = c \<Longrightarrow> a = ''7'' \<Longrightarrow> payout (a, b, c) = 200"
    by (simp add: payout_def)
  show "a = b \<and> b = c \<Longrightarrow> a \<noteq> ''7'' \<Longrightarrow> payout (a, b, c) = 50"
    by (simp add: payout_def)
  {
    assume n: "\<not> (a = b \<and> b = c)" and t: "a = b \<or> b = c \<or> a = c"
    then have e: "exactly_two_match (a, b, c)"
      unfolding exactly_two_match_def by (simp only: prod.case) blast
    from n have n1: "\<not> (a = b \<and> b = c \<and> a = ''7'')" by blast
    show "payout (a, b, c) = 20"
      unfolding payout_def by (simp only: prod.case n n1 e if_False if_True)
  }
  {
    assume n: "\<not> (a = b \<and> b = c)" and t: "\<not> (a = b \<or> b = c \<or> a = c)"
    then have e: "\<not> exactly_two_match (a, b, c)"
      unfolding exactly_two_match_def by (simp only: prod.case) blast
    from n have n1: "\<not> (a = b \<and> b = c \<and> a = ''7'')" by blast
    show "payout (a, b, c) = 0"
      unfolding payout_def by (simp only: prod.case n n1 e if_False if_True)
  }
qed

text \<open>
  \<open>_resolve\<close> of the Windows file adds to the credits 200 when all three reels show \<open>7\<close>,
  50 when they show another common symbol, 20 when exactly two reels agree, and nothing
  otherwise.
\<close>

lemma resolve_win_credits:
  "credits (fst (resolve_win d)) = credits d + payout (reels d)"
proof -
  obtain a b c where r: "reels d = (a, b, c)" by (cases "reels d")
  show ?thesis
  proof (cases "a = b \<and> b = c")
    case True
    show ?thesis
    proof (cases "a = ''7''")
      case seven: True
      have "credits (fst (resolve_win d)) = credits d + 200"
        using True seven by (simp add: r resolve_win_def Let_def)
      with payout_cases(1) [OF True seven] r show ?thesis by simp
    next
      case other: False
      have "credits (fst (resolve_win d)) = credits d + 50"
        using True other by (simp add: r resolve_win_def Let_def)
      with payout_cases(2) [OF True other] r show ?thesis by simp
    qed
  next
    case False
    show ?thesis
    proof (cases "a = b \<or> b = c \<or> a = c")
      case True
      have "credits (fst (resolve_win d)) = credits d + 20"
        unfolding resolve_win_def r
        by (simp only: prod.case False True if_False if_True Let_def fst_conv) simp
      with payout_cases(3) [OF False True] r show ?thesis by simp
    next
      case none: False
      have "credits (fst (resolve_win d)) = credits d"
        unfolding resolve_win_def r
        by (simp only: prod.case False none if_False if_True Let_def fst_conv)
      with payout_cases(4) [OF False none] r show ?thesis by simp
    qed
  qed
qed

text \<open>
  Claim C4 fails for the Linux file.  In the Windows file \<open>_resolve\<close> is a method of
  \<open>SlotMachineDialog\<close>, the Casino tile opens a slot dialog, and three sevens on a dialog
  with 100 credits give 300.  In the Linux file class \<open>SlotMachineDialog\<close> has no
  \<open>_resolve\<close>: the Casino tile opens a dialog set up by Qt alone, and asking it for
  \<open>_resolve\<close> raises \<open>AttributeError\<close>.  The \<open>def _resolve\<close> of that file is bound in
  class \<open>GamepadListener\<close>, of which no object can be made, with one argument or with the
  two of line 567.  So the Linux dashboard computes no payout.
\<close>

theorem linux_dialog_has_no_resolve:
  "instance_attr win_SlotMachineDialog ''_resolve'' = Inr (Own (Def ''_resolve'' 93 [] Method))
   \<and> open_casino win_SlotMachineDialog plain_env
       = Inr (Dialog \<lparr> credits = 100, sounds = True, reels = ([], [], []),
                        timers = (None, None, None) \<rparr>)
   \<and> payout (reels rich_dialog) = 200
   \<and> credits rich_dialog = 100
   \<and> credits (fst (resolve_win rich_dialog)) = 300
   \<and> open_casino linux_SlotMachineDialog plain_env = Inr QtOnly
   \<and> instance_attr linux_SlotMachineDialog ''_resolve''
       = Inl (no_attribute linux_SlotMachineDialog ''_resolve'')
   \<and> class_attr linux_GamepadListener ''_resolve'' = Some (Def ''_resolve'' 356 [] Method)
   \<and> construct linux_GamepadListener 1 plain_env
       = Inl (no_attribute linux_GamepadListener ''setWindowTitle'')
   \<and> construct linux_GamepadListener 2 plain_env
       = Inl (too_many_arguments linux_GamepadListener 1 2)"
proof -
  have "payout (reels rich_dialog) = 200" "credits rich_dialog = 100"
    by (simp_all add: rich_dialog_def payout_def)
  moreover from this have "credits (fst (resolve_win rich_dialog)) = 300"
    by (simp add: resolve_win_credits)
  moreover have "open_casino win_SlotMachineDialog plain_env
       = Inr (Dialog \<lparr> credits = 100, sounds = True, reels = ([], [], []),
                        timers = (None, None, None) \<rparr>)"
    by (simp add: win_casino_is_slot_dialog plain_env_def)
  moreover have "instance_attr win_SlotMachineDialog ''_resolve''
       = Inr (Own (Def ''_resolve'' 93 [] Method))"
    "instance_attr linux_SlotMachineDialog ''_resolve''
       = Inl (no_attribute linux_SlotMachineDialog ''_resolve'')"
    by (simp_all add: instance_attr_def class_facts base_facts qt_defines_def)
  ultimately show ?thesis
    by (simp add: linux_casino_is_bare class_facts gamepad_listener_never_constructed)
qed

text \<open>
  \<open>spin\<close> of the Windows file: with fewer than 10 credits it changes neither the credits
  nor the timers and starts no timer; with at least 10 credits it takes exactly 10, shows
  the new balance first, and then starts the three reel timers.
\<close>

lemma spin_win_poor: "credits d < 10 \<Longrightarrow> spin_win d = (d, [MessageBox NoCredits])"
  by (simp add: spin_win_def)

lemma max_durations: "Max (set [800, 1400, 2000 :: nat]) + 50 = 2050"
  by simp

lemma spin_win_rich:
  "10 \<le> credits d \<Longrightarrow> spin_win d =
     (d \<lparr> credits := credits d - 10, timers := (Some 50, Some 70, Some 90) \<rparr>,
      ShowCredits (credits d - 10) # play_sound_if (d \<lparr> credits := credits d - 10 \<rparr>) ''click.mp3''
      @ [TimerStart 0 50, SingleShot 800 (StopTimer 0), TimerStart 1 70,
         SingleShot 1400 (StopTimer 1), TimerStart 2 90, SingleShot 2000 (StopTimer 2),
         SingleShot 2050 Resolve])"
  unfolding spin_win_def Let_def
  by (simp add: max_durations del: Max.set_eq_fold set_simps)

lemma timer_starts:
  "filter is_timer_start (play_sound_if d' f
      @ [TimerStart 0 50, SingleShot 800 (StopTimer 0), TimerStart 1 70,
         SingleShot 1400 (StopTimer 1), TimerStart 2 90, SingleShot 2000 (StopTimer 2),
         SingleShot 2050 Resolve])
   = [TimerStart 0 50, TimerStart 1 70, TimerStart 2 90]"
  by (simp add: is_timer_start_def play_sound_if_def)

lemma spin_win_costs_ten:
  "(credits d < 10 \<longrightarrow>
      credits (fst (spin_win d)) = credits d \<and> timers (fst (spin_win d)) = timers d
      \<and> \<not> list_ex is_timer_start (snd (spin_win d)))
   \<and> (10 \<le> credits d \<longrightarrow>
      credits (fst (spin_win d)) = credits d - 10
      \<and> timers (fst (spin_win d)) = (Some 50, Some 70, Some 90)
      \<and> (\<exists>rest. snd (spin_win d) = ShowCredits (credits d - 10) # rest
             \<and> filter is_timer_start rest = [TimerStart 0 50, TimerStart 1 70, TimerStart 2 90]))"
proof (intro conjI impI)
  assume p: "credits d < 10"
  show "credits (fst (spin_win d)) = credits d" "timers (fst (spin_win d)) = timers d"
    "\<not> list_ex is_timer_start (snd (spin_win d))"
    by (simp_all add: spin_win_poor [OF p] is_timer_start_def)
next
  assume r: "10 \<le> credits d"
  show "credits (fst (spin_win d)) = credits d - 10"
    "timers (fst (spin_win d)) = (Some 50, Some 70, Some 90)"
    by (simp_all add: spin_win_rich [OF r])
  show "\<exists>rest. snd (spin_win d) = ShowCredits (credits d - 10) # rest
             \<and> filter is_timer_start rest = [TimerStart 0 50, TimerStart 1 70, TimerStart 2 90]"
    using timer_starts by (simp add: spin_win_rich [OF r])
qed

text \<open>
  Claim C10 fails for the Linux file.  In the Windows file \<open>spin\<close> is a method of
  \<open>SlotMachineDialog\<close>: with 5 credits nothing changes and no timer starts, with 100
  credits 90 are left and the three timers run.  In the Linux file class
  \<open>SlotMachineDialog\<close> has no \<open>spin\<close>: the Casino tile opens a dialog set up by Qt alone
  (no credits, no button, no timers), and asking it for \<open>spin\<close> raises \<open>AttributeError\<close>.
  The \<open>def spin\<close> of that file is bound in class \<open>GamepadListener\<close>, of which no object
  can be made.
\<close>

theorem linux_dialog_has_no_spin:
  "instance_attr win_SlotMachineDialog ''spin'' = Inr (Own (Def ''spin'' 79 [] Method))
   \<and> credits poor_dialog = 5
   \<and> spin_win poor_dialog = (poor_dialog, [MessageBox NoCredits])
   \<and> credits rich_dialog = 100
   \<and> credits (fst (spin_win rich_dialog)) = 90
   \<and> timers (fst (spin_win rich_dialog)) = (Some 50, Some 70, Some 90)
   \<and> filter is_timer_start (snd (spin_win rich_dialog))
       = [TimerStart 0 50, TimerStart 1 70, TimerStart 2 90]
   \<and> open_casino linux_SlotMachineDialog plain_env = Inr QtOnly
   \<and> instance_attr linux_SlotMachineDialog ''spin''
       = Inl (no_attribute linux_SlotMachineDialog ''spin'')
   \<and> class_attr linux_GamepadListener ''spin'' = Some (Def ''spin'' 342 [] Method)
   \<and> construct linux_GamepadListener 1 plain_env
       = Inl (no_attribute linux_GamepadListener ''setWindowTitle'')
   \<and> construct linux_GamepadListener 2 plain_env
       = Inl (too_many_arguments linux_GamepadListener 1 2)"
proof -
  have p: "credits poor_dialog = 5" and r: "credits rich_dialog = 100"
    by (simp_all add: poor_dialog_def rich_dialog_def)
  have "spin_win poor_dialog = (poor_dialog, [MessageBox NoCredits])"
    using p by (simp add: spin_win_poor)
  moreover have "credits (fst (spin_win rich_dialog)) = 90"
    "timers (fst (spin_win rich_dialog)) = (Some 50, Some 70, Some 90)"
    "filter is_timer_start (snd (spin_win rich_dialog))
       = [TimerStart 0 50, TimerStart 1 70, TimerStart 2 90]"
    using r by (simp_all add: spin_win_rich is_timer_start_def play_sound_if_def)
  moreover have "instance_attr win_SlotMachineDialog ''spin'' = Inr (Own (Def ''spin'' 79 [] Method))"
    "instance_attr linux_SlotMachineDialog ''spin''
       = Inl (no_attribute linux_SlotMachineDialog ''spin'')"
    by (simp_all add: instance_attr_def class_facts base_facts qt_defines_def)
  ultimately show ?thesis
    using p r by (simp add: linux_casino_is_bare class_facts gamepad_listener_never_constructed)
qed
section \<open>Facts about the gamepad listener\<close>

text \<open>What \<open>_maybe_emit\<close> does for a direction that is, or is not, marked as held.\<close>

lemma maybe_emit_first_press:
  "\<not> held g dir \<Longrightarrow>
     snd (maybe_emit dir now g) = emit_direction dir
     \<and> held (fst (maybe_emit dir now g)) dir
     \<and> last_emit (fst (maybe_emit dir now g)) dir = now"
  by (simp add: maybe_emit_def Let_def)

lemma maybe_emit_while_held:
  "held g dir \<Longrightarrow>
     snd (maybe_emit dir now g)
       = (if now - last_emit g dir \<ge> real_of_int (repeat_rate g) then emit_direction dir else [])
     \<and> held (fst (maybe_emit dir now g)) dir"
  by (simp add: maybe_emit_def Let_def)

lemma poll_axis_centred:
  "\<not> ax < - deadzone g \<Longrightarrow> \<not> ax > deadzone g \<Longrightarrow>
     snd (poll_axis ax neg pos now g) = []
     \<and> \<not> held (fst (poll_axis ax neg pos now g)) neg
     \<and> \<not> held (fst (poll_axis ax neg pos now g)) pos"
  by (simp add: poll_axis_def)

text \<open>
  In the text of \<open>poll\<close> the marks in \<open>_held\<close> are shared by all joysticks: an idle second
  stick clears the mark that the first stick has just set, within the same poll, so that
  every next poll takes the first-press branch again, whatever the time.
\<close>

lemma idle_pad_clears_held:
  assumes "0 \<le> deadzone g" "deadzone g < 1"
  shows "\<not> held (fst (poll now g [pad_left, pad_idle])) DirLeft
       \<and> deadzone (fst (poll now g [pad_left, pad_idle])) = deadzone g"
  using assms
  by (simp add: pad_left_def pad_idle_def poll_joystick_def poll_axis_def
      maybe_emit_def poll_buttons_def button_value_def Let_def)

lemma two_pads_emit_when_clear:
  assumes "0 \<le> deadzone g" "deadzone g < 1" "\<not> held g DirLeft"
  shows "snd (poll now g [pad_left, pad_idle]) = [SigLeft]"
  using assms
  by (simp add: pad_left_def pad_idle_def poll_joystick_def poll_axis_def
      maybe_emit_def poll_buttons_def button_value_def Let_def)

lemma two_pads_emit_in_every_next_poll:
  assumes "0 \<le> deadzone g" "deadzone g < 1"
  shows "snd (poll now2 (fst (poll now1 g [pad_left, pad_idle])) [pad_left, pad_idle]) = [SigLeft]"
  using idle_pad_clears_held [OF assms, of now1] assms
  by (intro two_pads_emit_when_clear) simp_all

text \<open>The Linux dashboard never gets a listener, so no signal of a gamepad reaches it.\<close>

lemma gamepad_setup_fails: "gamepad_setup env = None"
  by (simp add: gamepad_setup_def gamepad_listener_never_constructed)

lemma dashboard_never_hears_gamepad: "dashboard_signals env ticks = []"
  by (simp add: dashboard_signals_def gamepad_setup_fails)

lemma update_settings_no_cfg: "update_settings no_cfg g = g"
  by (simp add: update_settings_def no_cfg_def Let_def)

text \<open>
  Claim C6 fails in the running dashboard.  The only call of the class,
  \<open>GamepadListener(self, cfg)\<close> at line 567, reaches the \<open>__init__\<close> of line 288, which takes
  one argument, and raises \<open>TypeError\<close>; the handler of line 576 drops it.  No listener
  exists, \<open>poll\<close> never runs, and a stick held to the left over three timer ticks emits
  nothing.  On the fields that the listener's own \<open>__init__\<close> (line 182) would set, the text
  of \<open>poll\<close> emits \<open>left\<close> at the first tick, nothing 50 ms later, and \<open>left\<close> again 200 ms
  after the first.
\<close>

theorem held_stick_emits_nothing:
  "class_attr linux_GamepadListener ''__init__'' = Some (Def ''__init__'' 288 [''parent''] DialogInit)
   \<and> construct linux_GamepadListener 2 plain_env
       = Inl (too_many_arguments linux_GamepadListener 1 2)
   \<and> gamepad_setup plain_env = None
   \<and> dashboard_signals plain_env [(1000, [pad_left]), (1050, [pad_left]), (1200, [pad_left])] = []
   \<and> run_polls (fst (listener_init no_cfg True))
         [(1000, [pad_left]), (1050, [pad_left]), (1200, [pad_left])] = [SigLeft, SigLeft]"
proof -
  have "run_polls (fst (listener_init no_cfg True))
         [(1000, [pad_left]), (1050, [pad_left]), (1200, [pad_left])] = [SigLeft, SigLeft]"
    by (simp add: listener_init_def update_settings_no_cfg listener_defaults_def pad_left_def
        poll_joystick_def poll_axis_def maybe_emit_def poll_buttons_def button_value_def Let_def)
  then show ?thesis
    by (simp add: class_facts gamepad_listener_never_constructed gamepad_setup_fails
        dashboard_never_hears_gamepad)
qed
end
